theory Spec2Isabelle
  imports Complex_Main
begin

text \<open>
  A model of the two adapters of the repository that carry its protocol logic: the retrying
  HTTP client (\<^verbatim>\<open>api.py\<close>) and the idempotent event bus with its event store
  (\<^verbatim>\<open>event_bus.py\<close>). Every function returns what the Python returns or raises, together
  with the trace of what it did. The adapters rest on four libraries that are not part of
  the repository: tenacity (the retry loop, as of its version 8.2.3), aiohttp, aio-pika and
  redis-py. The behaviour of theirs that the adapters rely on is stated at the definition
  that models it; the network, the broker and the Redis server are inputs.
\<close>

section \<open>Values and exceptions\<close>

text \<open>
  Parsed JSON, as \<^verbatim>\<open>json.loads\<close> and \<^verbatim>\<open>response.json()\<close> return it. A JSON object is an
  association list in document order; numbers are restricted to integers.
\<close>

datatype json_value =
    JNull
  | JBool bool
  | JNum int
  | JStr string
  | JArr "json_value list"
  | JObj "(string \<times> json_value) list"

text \<open>
  The exception classes the two adapters raise, catch or let through.
  \<^verbatim>\<open>ClientResponseError\<close> carries the HTTP status; \<^verbatim>\<open>ClientError\<close> stands for every other
  subclass of \<^verbatim>\<open>aiohttp.ClientError\<close> (connection refused or reset, server disconnected);
  \<^verbatim>\<open>TimeoutError\<close> is \<^verbatim>\<open>asyncio.TimeoutError\<close>, what a request raises when the total timeout
  of the session expires, and is not an \<^verbatim>\<open>aiohttp.ClientError\<close>;
  \<^verbatim>\<open>RetryError\<close> is tenacity's error and wraps the exception of the last attempt;
  \<^verbatim>\<open>QueueFull\<close> is \<^verbatim>\<open>asyncio.QueueFull\<close>;
  \<^verbatim>\<open>CancelledError\<close> is the one member that derives from \<^verbatim>\<open>BaseException\<close> only.
\<close>

datatype exn =
    ClientResponseError nat
  | ClientError string
  | TimeoutError
  | RetryError exn
  | JSONDecodeError
  | UnicodeDecodeError
  | AttributeError
  | RuntimeError
  | ValueError
  | RedisError
  | AMQPError
  | MessageProcessError
  | QueueFull
  | CancelledError
  | OtherException string

text \<open>\<^verbatim>\<open>isinstance(error, aiohttp.ClientResponseError)\<close>\<close>

fun is_ClientResponseError :: "exn \<Rightarrow> bool" where
  "is_ClientResponseError (ClientResponseError status) = True"
| "is_ClientResponseError e = False"

text \<open>\<^verbatim>\<open>isinstance(error, aiohttp.ClientError)\<close>: the response error is a subclass.\<close>

fun is_ClientError :: "exn \<Rightarrow> bool" where
  "is_ClientError (ClientResponseError status) = True"
| "is_ClientError (ClientError msg) = True"
| "is_ClientError e = False"

text \<open>\<^verbatim>\<open>isinstance(error, Exception)\<close>, what a clause \<^verbatim>\<open>except Exception\<close> catches.\<close>

fun is_Exception :: "exn \<Rightarrow> bool" where
  "is_Exception CancelledError = False"
| "is_Exception e = True"

text \<open>
  A transport error, as the specification lists them (connection refused, connection reset,
  timeout): a client error that is not derived from a response status, or the timeout.
\<close>

fun transport_error :: "exn \<Rightarrow> bool" where
  "transport_error (ClientError msg) = True"
| "transport_error TimeoutError = True"
| "transport_error e = False"

section \<open>The HTTP client (api.py)\<close>

subsection \<open>Data\<close>

text \<open>
  \<^verbatim>\<open>RateLimiter.__init__\<close>: the fields it sets. The token queue is represented by its
  capacity; the refill task and the waiting of \<^verbatim>\<open>acquire\<close> are concurrency and stay outside
  the model, where \<^verbatim>\<open>acquire\<close> is an event of the trace that returns.
\<close>

record rate_limiter =
  rl_rate_limit :: int
  delay :: real
  queue_maxsize :: int
  active :: bool

definition RateLimiter :: "int \<Rightarrow> int \<Rightarrow> rate_limiter" where
  "RateLimiter rate_limit interval =
     \<lparr> rl_rate_limit = rate_limit,
       delay = real_of_int interval / real_of_int rate_limit,
       queue_maxsize = rate_limit,
       active = True \<rparr>"

text \<open>
  The token queue of the limiter, an \<^verbatim>\<open>asyncio.Queue\<close>: \<^verbatim>\<open>put_nowait\<close> raises \<^verbatim>\<open>QueueFull\<close> when
  the queue is full, and a queue whose \<^verbatim>\<open>maxsize\<close> is not positive is never full.
\<close>

record token_queue =
  maxsize :: int
  qsize :: nat

definition put_nowait :: "token_queue \<Rightarrow> exn + token_queue" where
  "put_nowait q =
     (if maxsize q > 0 \<and> int (qsize q) \<ge> maxsize q then Inl QueueFull
      else Inr (q\<lparr> qsize := qsize q + 1 \<rparr>))"

fun is_QueueFull :: "exn \<Rightarrow> bool" where
  "is_QueueFull QueueFull = True"
| "is_QueueFull e = False"

text \<open>
  One round of \<^verbatim>\<open>_fill_tokens\<close> after its sleep: \<^verbatim>\<open>put_nowait(1)\<close> inside
  \<^verbatim>\<open>contextlib.suppress(asyncio.QueueFull)\<close>. The result is the exception that leaves the
  block, if any, the queue and the number of log entries written.
\<close>

definition fill_tokens_step :: "token_queue \<Rightarrow> exn option \<times> token_queue \<times> nat" where
  "fill_tokens_step q =
     (case put_nowait q of
        Inr q1 \<Rightarrow> (None, q1, 0)
      | Inl e \<Rightarrow> if is_QueueFull e then (None, q, 0) else (Some e, q, 0))"

fun is_CancelledError :: "exn \<Rightarrow> bool" where
  "is_CancelledError CancelledError = True"
| "is_CancelledError e = False"

text \<open>
  \<^verbatim>\<open>RateLimiter.stop\<close>: clear the flag, cancel the task and await it inside
  \<^verbatim>\<open>contextlib.suppress(asyncio.CancelledError)\<close>. What awaiting the task raises is an input:
  \<^verbatim>\<open>CancelledError\<close> for the cancelled task. The result is the exception that leaves \<^verbatim>\<open>stop\<close>,
  the limiter and the number of log entries written.
\<close>

definition stop :: "exn option \<Rightarrow> rate_limiter \<Rightarrow> exn option \<times> rate_limiter \<times> nat" where
  "stop awaited rl =
     (case awaited of
        None \<Rightarrow> (None, rl\<lparr> active := False \<rparr>, 0)
      | Some e \<Rightarrow>
          if is_CancelledError e then (None, rl\<lparr> active := False \<rparr>, 0)
          else (Some e, rl\<lparr> active := False \<rparr>, 0))"

text \<open>The aiohttp session: its total timeout and whether it has been closed.\<close>

record client_session =
  total_timeout :: real
  closed :: bool

text \<open>
  The decorator built by \<^verbatim>\<open>tenacity.retry(...)\<close> in \<^verbatim>\<open>__init__\<close>: the limit handed to
  \<^verbatim>\<open>stop_after_attempt\<close> and the multiplier handed to \<^verbatim>\<open>wait_exponential\<close>. The retry predicate
  is fixed (\<^verbatim>\<open>isinstance(error, aiohttp.ClientError)\<close>), and \<^verbatim>\<open>before_sleep\<close> is the logger.
\<close>

record retry_config =
  max_attempt_number :: int
  multiplier :: real

record api_client =
  rate_limit :: "int option"
  timeout :: real
  max_retries :: int
  backoff_start :: real
  rate_limiter :: "rate_limiter option"
  session :: "client_session option"
  retry_cfg :: retry_config

text \<open>
  \<^verbatim>\<open>AIOHTTPAPIClientAdapter.__init__\<close>. \<^verbatim>\<open>RateLimiter(rate_limit, 60) if rate_limit else None\<close>:
  both \<^verbatim>\<open>None\<close> and \<^verbatim>\<open>0\<close> are falsy.
\<close>

definition client_init :: "int option \<Rightarrow> real \<Rightarrow> int \<Rightarrow> real \<Rightarrow> api_client" where
  "client_init rate_limit_arg timeout_arg max_retries_arg backoff_start_arg =
     \<lparr> rate_limit = rate_limit_arg,
       timeout = timeout_arg,
       max_retries = max_retries_arg,
       backoff_start = backoff_start_arg,
       rate_limiter =
         (case rate_limit_arg of
            None \<Rightarrow> None
          | Some r \<Rightarrow> if r \<noteq> 0 then Some (RateLimiter r 60) else None),
       session = None,
       retry_cfg = \<lparr> max_attempt_number = max_retries_arg, multiplier = backoff_start_arg \<rparr> \<rparr>"

text \<open>\<^verbatim>\<open>__aenter__\<close>: a fresh session with the client's timeout.\<close>

definition aenter :: "api_client \<Rightarrow> api_client" where
  "aenter c = c\<lparr> session := Some \<lparr> total_timeout = timeout c, closed = False \<rparr> \<rparr>"

text \<open>
  What the network does at one attempt, decided by the environment: either
  \<^verbatim>\<open>session.request\<close> fails on entry with an exception, or a response arrives with a status
  and with what \<^verbatim>\<open>response.json()\<close> then yields.
\<close>

datatype http_outcome =
    Response nat "exn + json_value"
  | Failed exn

text \<open>What the client does, in order: the trace of one call of \<^verbatim>\<open>request\<close>.\<close>

datatype client_event =
    Attempt nat
  | Acquire
  | LogDebugRequest
  | HttpCall
  | LogHttpError nat
  | LogRequestFailed
  | BeforeSleepLog nat
  | Sleep real

subsection \<open>The request\<close>

text \<open>
  The body of the \<^verbatim>\<open>try\<close> in \<^verbatim>\<open>_request\<close>: \<^verbatim>\<open>raise_for_status\<close> raises for a status of 400
  or more, otherwise the parsed body is returned (or the exception of parsing it).
\<close>

fun try_request :: "http_outcome \<Rightarrow> exn + json_value" where
  "try_request (Failed e) = Inl e"
| "try_request (Response status body) =
     (if status \<ge> 400 then Inl (ClientResponseError status) else body)"

text \<open>
  \<^verbatim>\<open>_request\<close>: acquire a token when a limiter is configured, log, perform the call, and in
  the two \<^verbatim>\<open>except\<close> clauses log and re-raise. With no session (\<^verbatim>\<open>None\<close>) the attribute access
  fails; a closed session refuses the request. Neither is a client error.
\<close>

definition raw_request :: "api_client \<Rightarrow> http_outcome \<Rightarrow> (exn + json_value) \<times> client_event list" where
  "raw_request c out =
     (let acq = (if rate_limiter c \<noteq> None then [Acquire] else []) in
      case session c of
        None \<Rightarrow> (Inl AttributeError, acq @ [LogDebugRequest])
      | Some s \<Rightarrow>
          if closed s then (Inl RuntimeError, acq @ [LogDebugRequest])
          else
            (case try_request out of
               Inr v \<Rightarrow> (Inr v, acq @ [LogDebugRequest, HttpCall])
             | Inl e \<Rightarrow>
                 (case e of
                    ClientResponseError status \<Rightarrow>
                      (Inl e, acq @ [LogDebugRequest, HttpCall, LogHttpError status])
                  | _ \<Rightarrow>
                      if is_ClientError e
                      then (Inl e, acq @ [LogDebugRequest, HttpCall, LogRequestFailed])
                      else (Inl e, acq @ [LogDebugRequest, HttpCall]))))"

subsection \<open>The retry loop\<close>

text \<open>
  \<^verbatim>\<open>sys.maxsize / 2\<close> on a 64-bit interpreter, tenacity's bound on a wait. Floating-point
  seconds are idealised as reals.
\<close>

definition MAX_WAIT :: real where
  "MAX_WAIT = (2 ^ 63 - 1) / 2"

text \<open>
  tenacity's \<^verbatim>\<open>wait_exponential(multiplier=m)\<close>, called with the number of the attempt that
  has just failed: \<^verbatim>\<open>max(max(0, min), min(m * 2 ** (attempt_number - 1), max))\<close> with the
  defaults \<^verbatim>\<open>min = 0\<close> and \<^verbatim>\<open>max = MAX_WAIT\<close>.
\<close>

definition wait_exponential :: "real \<Rightarrow> nat \<Rightarrow> real" where
  "wait_exponential m attempt_number =
     max (max 0 0) (min (m * 2 ^ (attempt_number - 1)) MAX_WAIT)"

text \<open>tenacity's \<^verbatim>\<open>stop_after_attempt(n)\<close>: \<^verbatim>\<open>attempt_number >= max_attempt_number\<close>.\<close>

definition stop_after_attempt :: "int \<Rightarrow> nat \<Rightarrow> bool" where
  "stop_after_attempt n attempt_number = (int attempt_number \<ge> n)"

text \<open>
  tenacity's loop around \<^verbatim>\<open>_request\<close> (\<^verbatim>\<open>AsyncRetrying.__call__\<close> with \<^verbatim>\<open>iter\<close>): run the
  attempt; a result, or an exception the predicate rejects, ends the call with it; else, if
  the stop condition holds, \<^verbatim>\<open>RetryError\<close> is raised from the last exception; else the wait
  is computed, \<^verbatim>\<open>before_sleep\<close> logs, the loop sleeps and the attempt number grows by one.
  \<open>env n\<close> is what the network does at attempt \<open>n\<close>.
\<close>

function retrying :: "api_client \<Rightarrow> (nat \<Rightarrow> http_outcome) \<Rightarrow> nat \<Rightarrow> (exn + json_value) \<times> client_event list" where
  "retrying c env n =
     (case raw_request c (env n) of
        (Inr v, tr) \<Rightarrow> (Inr v, Attempt n # tr)
      | (Inl e, tr) \<Rightarrow>
          if \<not> is_ClientError e then (Inl e, Attempt n # tr)
          else if stop_after_attempt (max_attempt_number (retry_cfg c)) n
          then (Inl (RetryError e), Attempt n # tr)
          else
            (case retrying c env (Suc n) of
               (res, tr') \<Rightarrow>
                 (res, Attempt n # tr
                        @ [BeforeSleepLog n, Sleep (wait_exponential (multiplier (retry_cfg c)) n)]
                        @ tr')))"
  by pat_completeness auto
termination
  by (relation "measure (\<lambda>(c, env, n). nat (max_attempt_number (retry_cfg c) - int n))")
     (auto simp: stop_after_attempt_def)

text \<open>
  The property \<^verbatim>\<open>request\<close>: \<^verbatim>\<open>self.retry_config(self._request)\<close>, whose first attempt has
  number 1.
\<close>

definition request :: "api_client \<Rightarrow> (nat \<Rightarrow> http_outcome) \<Rightarrow> (exn + json_value) \<times> client_event list" where
  "request c env = retrying c env 1"

text \<open>How often the underlying HTTP call was made.\<close>

fun is_HttpCall :: "client_event \<Rightarrow> bool" where
  "is_HttpCall HttpCall = True"
| "is_HttpCall e = False"

definition underlying_calls :: "client_event list \<Rightarrow> nat" where
  "underlying_calls tr = length (filter is_HttpCall tr)"

text \<open>
  An outcome that ends the loop at once: a result, or an exception that is not a client
  error.
\<close>

fun ends_loop :: "exn + json_value \<Rightarrow> bool" where
  "ends_loop (Inr v) = True"
| "ends_loop (Inl e) = (\<not> is_ClientError e)"

text \<open>
  Scripted networks for concrete runs: the same outcome at every attempt, or the outcomes
  of a list at attempts 1, 2, ... and a fixed outcome afterwards.
\<close>

definition always :: "http_outcome \<Rightarrow> nat \<Rightarrow> http_outcome" where
  "always out n = out"

definition scripted :: "http_outcome list \<Rightarrow> http_outcome \<Rightarrow> nat \<Rightarrow> http_outcome" where
  "scripted outs rest n = (if 1 \<le> n \<and> n \<le> length outs then outs ! (n - 1) else rest)"

subsection \<open>The EODHD client\<close>

record eodhd_client = api_client +
  api_key :: string

text \<open>
  \<^verbatim>\<open>EODHDAPIClient.__init__\<close>: the parent's constructor runs first, then a falsy key
  (\<^verbatim>\<open>None\<close> or the empty string) raises \<^verbatim>\<open>ValueError\<close>, and otherwise the key is stored. The
  key is \<open>None\<close> when the caller passes Python's \<^verbatim>\<open>None\<close>.
\<close>

definition eodhd_init ::
  "string option \<Rightarrow> int option \<Rightarrow> real \<Rightarrow> int \<Rightarrow> real \<Rightarrow> exn + eodhd_client" where
  "eodhd_init api_key_arg rate_limit_arg timeout_arg max_retries_arg backoff_start_arg =
     (let base = client_init rate_limit_arg timeout_arg max_retries_arg backoff_start_arg in
      case api_key_arg of
        None \<Rightarrow> Inl ValueError
      | Some k \<Rightarrow>
          if k = [] then Inl ValueError
          else Inr (api_client.extend base (eodhd_client.fields k)))"

section \<open>The event store and the event bus (event\_bus.py)\<close>

subsection \<open>Python values\<close>

text \<open>Truthiness, as \<^verbatim>\<open>if not event_id\<close> tests it.\<close>

fun truthy :: "json_value \<Rightarrow> bool" where
  "truthy JNull = False"
| "truthy (JBool b) = b"
| "truthy (JNum n) = (n \<noteq> 0)"
| "truthy (JStr s) = (s \<noteq> [])"
| "truthy (JArr xs) = (xs \<noteq> [])"
| "truthy (JObj kvs) = (kvs \<noteq> [])"

text \<open>
  \<^verbatim>\<open>data.get(key)\<close> on the dictionary \<^verbatim>\<open>json.loads\<close> builds: of a repeated key the last
  value stays, and a missing key gives \<^verbatim>\<open>None\<close>.
\<close>

definition dict_get :: "(string \<times> json_value) list \<Rightarrow> string \<Rightarrow> json_value" where
  "dict_get kvs k = (case map_of (rev kvs) k of None \<Rightarrow> JNull | Some v \<Rightarrow> v)"

text \<open>\<^verbatim>\<open>repr\<close> of an integer, the way the Redis client encodes a numeric key.\<close>

fun show_nat :: "nat \<Rightarrow> string" where
  "show_nat n =
     (if n < 10 then [''0123456789'' ! n]
      else show_nat (n div 10) @ [''0123456789'' ! (n mod 10)])"

definition show_int :: "int \<Rightarrow> string" where
  "show_int i = (if i < 0 then CHR ''-'' # show_nat (nat (- i)) else show_nat (nat i))"

text \<open>
  The key the Redis client sends for a value: strings as they are, integers by their
  decimal form; booleans, lists, objects and \<^verbatim>\<open>None\<close> are refused with \<^verbatim>\<open>DataError\<close>, a
  \<^verbatim>\<open>RedisError\<close>.
\<close>

fun redis_key :: "json_value \<Rightarrow> string option" where
  "redis_key (JStr s) = Some s"
| "redis_key (JNum n) = Some (show_int n)"
| "redis_key v = None"

subsection \<open>Events of a delivery\<close>

datatype log_level = Debug | Info | Warning | Error | Exception

datatype bus_event =
    Parse
  | DedupeCheck json_value
  | InvokeHandler json_value
  | MarkProcessed json_value
  | Ack
  | Reject bool
  | Log log_level string
  | ConnectRobust
  | OpenChannel
  | DeclareExchange string
  | DeclareQueue string
  | Bind string
  | Consume
  | Publish string json_value

subsection \<open>RedisEventStoreAdapter\<close>

text \<open>
  The adapter's \<^verbatim>\<open>redis\<close> attribute (whether the pool exists) and the server behind it: each
  key with the seconds it has left to live.
\<close>

record event_store =
  redis :: bool
  db :: "string \<rightharpoonup> nat"

text \<open>Which Redis commands fail with \<^verbatim>\<open>RedisError\<close> during one delivery.\<close>

record redis_env =
  from_url_fails :: bool
  exists_fails :: bool
  set_fails :: bool

definition initialize :: "redis_env \<Rightarrow> event_store \<Rightarrow> exn option \<times> event_store \<times> bus_event list" where
  "initialize env st =
     (if \<not> redis st then
        (if from_url_fails env
         then (Some RedisError, st, [Log Exception ''Failed to initialize Redis connection pool.''])
         else (None, st\<lparr> redis := True \<rparr>, [Log Debug ''Redis connection pool initialized.'']))
      else (None, st, []))"

definition is_processed ::
  "redis_env \<Rightarrow> event_store \<Rightarrow> json_value \<Rightarrow> (exn + bool) \<times> event_store \<times> bus_event list" where
  "is_processed env st event_id =
     (case initialize env st of
        (Some e, st1, tr) \<Rightarrow> (Inl e, st1, tr)
      | (None, st1, tr) \<Rightarrow>
          (case redis_key event_id of
             None \<Rightarrow> (Inl RedisError, st1, tr @ [Log Exception ''Error checking if event is processed.''])
           | Some k \<Rightarrow>
               if exists_fails env
               then (Inl RedisError, st1, tr @ [Log Exception ''Error checking if event is processed.''])
               else (Inr (k \<in> dom (db st1)), st1, tr @ [Log Debug ''Checked if event is processed''])))"

definition mark_as_processed ::
  "redis_env \<Rightarrow> event_store \<Rightarrow> json_value \<Rightarrow> exn option \<times> event_store \<times> bus_event list" where
  "mark_as_processed env st event_id =
     (case initialize env st of
        (Some e, st1, tr) \<Rightarrow> (Some e, st1, tr)
      | (None, st1, tr) \<Rightarrow>
          (case redis_key event_id of
             None \<Rightarrow> (Some RedisError, st1, tr @ [Log Exception ''Error marking event as processed.''])
           | Some k \<Rightarrow>
               if set_fails env
               then (Some RedisError, st1, tr @ [Log Exception ''Error marking event as processed.''])
               else (None, st1\<lparr> db := (db st1)(k \<mapsto> 2592000) \<rparr>,
                     tr @ [Log Debug ''Marked event as processed.''])))"

text \<open>
  \<^verbatim>\<open>RedisEventStoreAdapter.close\<close>; \<open>close_fails\<close> says whether closing the pool raises
  \<^verbatim>\<open>RedisError\<close>.
\<close>

definition close_store :: "bool \<Rightarrow> event_store \<Rightarrow> exn option \<times> event_store \<times> bus_event list" where
  "close_store close_fails st =
     (if redis st then
        (if close_fails
         then (Some RedisError, st, [Log Exception ''Error closing Redis connection.''])
         else (None, st, [Log Debug ''Redis connection closed.'']))
      else (None, st, []))"

text \<open>Time passing on the server: after \<open>t\<close> seconds the keys with no time left are gone.\<close>

definition elapse :: "nat \<Rightarrow> event_store \<Rightarrow> event_store" where
  "elapse t st =
     st\<lparr> db := (\<lambda>k. case db st k of
                       None \<Rightarrow> None
                     | Some r \<Rightarrow> if r \<le> t then None else Some (r - t)) \<rparr>"

subsection \<open>The message and its context manager\<close>

text \<open>
  What \<^verbatim>\<open>message.body.decode()\<close> followed by \<^verbatim>\<open>json.loads\<close> makes of the bytes of a message:
  bytes that are not UTF-8 raise \<^verbatim>\<open>UnicodeDecodeError\<close>, text that is not JSON raises
  \<^verbatim>\<open>JSONDecodeError\<close>, anything else is a parsed value.
\<close>

datatype payload = InvalidUtf8 | InvalidJson | Json json_value

text \<open>
  aio-pika's \<^verbatim>\<open>IncomingMessage.ack\<close> and \<^verbatim>\<open>reject\<close>, on the message's \<^verbatim>\<open>processed\<close> flag: a
  message is answered once, and a second answer raises \<^verbatim>\<open>MessageProcessError\<close> and sends
  nothing to the broker.
\<close>

definition ack :: "bool \<Rightarrow> exn option \<times> bool \<times> bus_event list" where
  "ack processed = (if processed then (Some MessageProcessError, processed, []) else (None, True, [Ack]))"

definition reject :: "bool \<Rightarrow> bool \<Rightarrow> exn option \<times> bool \<times> bus_event list" where
  "reject requeue processed =
     (if processed then (Some MessageProcessError, processed, []) else (None, True, [Reject requeue]))"

type_synonym handler = "json_value \<Rightarrow> exn option"

text \<open>Handlers for concrete runs: one that completes, one that raises.\<close>

definition handler_ok :: handler where
  "handler_ok data = None"

definition handler_raising :: "exn \<Rightarrow> handler" where
  "handler_raising e data = Some e"

subsection \<open>on\_message\<close>

text \<open>
  The statements of the \<^verbatim>\<open>try\<close> after the identity check: the duplicate check, the handler,
  the marking. The result is the exception raised, if any, the store and the trace.
\<close>

definition process_event ::
  "handler \<Rightarrow> redis_env \<Rightarrow> event_store \<Rightarrow> json_value \<Rightarrow> json_value
     \<Rightarrow> exn option \<times> event_store \<times> bus_event list" where
  "process_event h env st data event_id =
     (case is_processed env st event_id of
        (Inl e, st1, tr1) \<Rightarrow> (Some e, st1, DedupeCheck event_id # tr1)
      | (Inr True, st1, tr1) \<Rightarrow>
          (None, st1, DedupeCheck event_id # tr1 @ [Log Info ''Duplicate event received. Skipping processing.''])
      | (Inr False, st1, tr1) \<Rightarrow>
          (case h data of
             Some e \<Rightarrow> (Some e, st1, DedupeCheck event_id # tr1 @ [InvokeHandler data])
           | None \<Rightarrow>
               (case mark_as_processed env st1 event_id of
                  (Some e, st2, tr2) \<Rightarrow>
                    (Some e, st2,
                     DedupeCheck event_id # tr1 @ [InvokeHandler data, MarkProcessed event_id] @ tr2)
                | (None, st2, tr2) \<Rightarrow>
                    (None, st2,
                     DedupeCheck event_id # tr1 @ [InvokeHandler data, MarkProcessed event_id] @ tr2
                       @ [Log Info ''Event processed and marked as processed.'']))))"

text \<open>
  The body of the \<^verbatim>\<open>try\<close>: parse, read \<^verbatim>\<open>event_id\<close> (a value that is not an object has no
  \<^verbatim>\<open>get\<close>), reject a message with a falsy identity, else process the event. The result is
  the exception raised, the message's \<^verbatim>\<open>processed\<close> flag, the store and the trace.
\<close>

definition try_body ::
  "handler \<Rightarrow> redis_env \<Rightarrow> event_store \<Rightarrow> payload
     \<Rightarrow> exn option \<times> bool \<times> event_store \<times> bus_event list" where
  "try_body h env st p =
     (case p of
        InvalidUtf8 \<Rightarrow> (Some UnicodeDecodeError, False, st, [Parse])
      | InvalidJson \<Rightarrow> (Some JSONDecodeError, False, st, [Parse])
      | Json data \<Rightarrow>
          (case data of
             JObj kvs \<Rightarrow>
               (let event_id = dict_get kvs ''event_id'' in
                if \<not> truthy event_id then
                  (case reject False False of
                     (r, processed, tr) \<Rightarrow>
                       (r, processed, st,
                        [Parse, Log Error ''Received event without event_id. Rejecting message.''] @ tr))
                else
                  (case process_event h env st data event_id of
                     (r, st1, tr) \<Rightarrow> (r, False, st1, Parse # tr)))
           | _ \<Rightarrow> (Some AttributeError, False, st, [Parse])))"

text \<open>\<^verbatim>\<open>isinstance(error, json.JSONDecodeError)\<close>\<close>

fun is_JSONDecodeError :: "exn \<Rightarrow> bool" where
  "is_JSONDecodeError JSONDecodeError = True"
| "is_JSONDecodeError e = False"

text \<open>
  The \<^verbatim>\<open>try\<close> statement with its two \<^verbatim>\<open>except\<close> clauses: a \<^verbatim>\<open>JSONDecodeError\<close> is logged, the
  message rejected without requeue and the error raised again; any other \<^verbatim>\<open>Exception\<close> is
  logged and the message rejected with requeue, and the clause ends there; what is not an
  \<^verbatim>\<open>Exception\<close> passes through. An exception raised inside a clause replaces the first.
\<close>

definition on_message_try ::
  "handler \<Rightarrow> redis_env \<Rightarrow> event_store \<Rightarrow> payload
     \<Rightarrow> exn option \<times> bool \<times> event_store \<times> bus_event list" where
  "on_message_try h env st p =
     (case try_body h env st p of
        (None, processed, st1, tr) \<Rightarrow> (None, processed, st1, tr)
      | (Some e, processed, st1, tr) \<Rightarrow>
          if is_JSONDecodeError e then
            (case reject False processed of
               (None, processed1, tr1) \<Rightarrow>
                 (Some e, processed1, st1, tr @ [Log Exception ''Invalid JSON in message.''] @ tr1)
             | (Some e1, processed1, tr1) \<Rightarrow>
                 (Some e1, processed1, st1, tr @ [Log Exception ''Invalid JSON in message.''] @ tr1))
          else if is_Exception e then
            (case reject True processed of
               (r, processed1, tr1) \<Rightarrow>
                 (r, processed1, st1, tr @ [Log Exception ''Error processing message.''] @ tr1))
          else (Some e, processed, st1, tr))"

text \<open>
  \<^verbatim>\<open>on_message\<close>: the \<^verbatim>\<open>try\<close> statement inside \<^verbatim>\<open>async with message.process()\<close>. aio-pika's
  context manager, with its defaults, acknowledges the message when the block ends
  normally and rejects it without requeue when the block raises; the broker delivers the
  message with \<^verbatim>\<open>processed\<close> unset. The result is the exception \<^verbatim>\<open>on_message\<close> raises, the store
  and the trace.
\<close>

definition on_message ::
  "handler \<Rightarrow> redis_env \<Rightarrow> event_store \<Rightarrow> payload
     \<Rightarrow> exn option \<times> event_store \<times> bus_event list" where
  "on_message h env st p =
     (case on_message_try h env st p of
        (None, processed, st1, tr) \<Rightarrow>
          (case ack processed of (r, processed1, tr1) \<Rightarrow> (r, st1, tr @ tr1))
      | (Some e, processed, st1, tr) \<Rightarrow>
          (case reject False processed of
             (None, processed1, tr1) \<Rightarrow> (Some e, st1, tr @ tr1)
           | (Some e1, processed1, tr1) \<Rightarrow> (Some e1, st1, tr @ tr1)))"

text \<open>How often the handler was invoked, and the five steps of a delivery.\<close>

fun is_InvokeHandler :: "bus_event \<Rightarrow> bool" where
  "is_InvokeHandler (InvokeHandler data) = True"
| "is_InvokeHandler e = False"

definition invocations :: "bus_event list \<Rightarrow> nat" where
  "invocations tr = length (filter is_InvokeHandler tr)"

fun is_step :: "bus_event \<Rightarrow> bool" where
  "is_step Parse = True"
| "is_step (DedupeCheck event_id) = True"
| "is_step (InvokeHandler data) = True"
| "is_step (MarkProcessed event_id) = True"
| "is_step Ack = True"
| "is_step e = False"

definition steps :: "bus_event list \<Rightarrow> bus_event list" where
  "steps tr = filter is_step tr"

subsection \<open>connect and subscribe\<close>

record event_bus =
  exchange_name :: string
  connection :: "bool option"
  channel :: "bool option"
  exchange :: bool
  subscriptions :: "(string \<times> handler) list"

text \<open>
  What the broker answers to each operation of one call: \<open>None\<close> when it succeeds, else
  the exception it raises. For \<open>connection\<close> and \<open>channel\<close> above, \<open>Some b\<close> is an object
  whose \<^verbatim>\<open>is_closed\<close> is \<open>b\<close>.
\<close>

record broker_env =
  connect_robust_result :: "exn option"
  channel_result :: "exn option"
  declare_exchange_result :: "exn option"
  declare_queue_result :: "exn option"
  bind_result :: "exn option"
  consume_result :: "exn option"

text \<open>
  \<^verbatim>\<open>isinstance(error, aio_pika.exceptions.AMQPError)\<close>: aio-pika's \<^verbatim>\<open>MessageProcessError\<close> is a
  subclass.
\<close>

fun is_AMQPError :: "exn \<Rightarrow> bool" where
  "is_AMQPError AMQPError = True"
| "is_AMQPError MessageProcessError = True"
| "is_AMQPError e = False"

definition RabbitMQEventBusAdapter :: "string \<Rightarrow> event_bus" where
  "RabbitMQEventBusAdapter name =
     \<lparr> exchange_name = name, connection = None, channel = None, exchange = False,
       subscriptions = [] \<rparr>"

definition connect_connection :: "broker_env \<Rightarrow> event_bus \<Rightarrow> exn option \<times> event_bus \<times> bus_event list" where
  "connect_connection env b =
     (if connection b = None \<or> connection b = Some True then
        (case connect_robust_result env of
           None \<Rightarrow> (None, b\<lparr> connection := Some False \<rparr>, [ConnectRobust, Log Debug ''Connected to RabbitMQ.''])
         | Some e \<Rightarrow>
             if is_AMQPError e
             then (Some e, b, [ConnectRobust, Log Exception ''Failed to connect to RabbitMQ.''])
             else (Some e, b, [ConnectRobust]))
      else (None, b, []))"

definition connect_channel :: "broker_env \<Rightarrow> event_bus \<Rightarrow> exn option \<times> event_bus \<times> bus_event list" where
  "connect_channel env b =
     (if channel b = None \<or> channel b = Some True then
        (case channel_result env of
           None \<Rightarrow> (None, b\<lparr> channel := Some False \<rparr>, [OpenChannel, Log Debug ''RabbitMQ Channel opened''])
         | Some e \<Rightarrow> (Some e, b, [OpenChannel]))
      else (None, b, []))"

definition connect_exchange :: "broker_env \<Rightarrow> event_bus \<Rightarrow> exn option \<times> event_bus \<times> bus_event list" where
  "connect_exchange env b =
     (if \<not> exchange b then
        (case declare_exchange_result env of
           None \<Rightarrow>
             (None, b\<lparr> exchange := True \<rparr>,
              [DeclareExchange (exchange_name b), Log Debug ''RabbitMQ Exchange declared''])
         | Some e \<Rightarrow> (Some e, b, [DeclareExchange (exchange_name b)]))
      else (None, b, []))"

text \<open>\<^verbatim>\<open>connect\<close>: the three guarded steps in order; the first exception ends the call.\<close>

definition connect :: "broker_env \<Rightarrow> event_bus \<Rightarrow> exn option \<times> event_bus \<times> bus_event list" where
  "connect env b =
     (case connect_connection env b of
        (Some e, b1, tr1) \<Rightarrow> (Some e, b1, tr1)
      | (None, b1, tr1) \<Rightarrow>
          (case connect_channel env b1 of
             (Some e, b2, tr2) \<Rightarrow> (Some e, b2, tr1 @ tr2)
           | (None, b2, tr2) \<Rightarrow>
               (case connect_exchange env b2 of
                  (r, b3, tr3) \<Rightarrow> (r, b3, tr1 @ tr2 @ tr3))))"

text \<open>
  \<^verbatim>\<open>publish\<close>: connect, build the persistent message from the event's fields and publish it
  with the event type as routing key; an \<^verbatim>\<open>AMQPError\<close> of publishing is logged and raised
  again, any other exception passes through. \<open>event_name\<close> is \<^verbatim>\<open>event.event_type\<close>, \<open>data\<close> is
  \<^verbatim>\<open>event.__dict__\<close>, and \<open>publish_result\<close> is the broker's answer to the publication.
\<close>

definition publish ::
  "broker_env \<Rightarrow> exn option \<Rightarrow> event_bus \<Rightarrow> string \<Rightarrow> json_value
     \<Rightarrow> exn option \<times> event_bus \<times> bus_event list" where
  "publish env publish_result b event_name data =
     (case connect env b of
        (Some e, b1, tr1) \<Rightarrow> (Some e, b1, tr1)
      | (None, b1, tr1) \<Rightarrow>
          (case publish_result of
             None \<Rightarrow> (None, b1, tr1 @ [Publish event_name data, Log Info ''Published event with data''])
           | Some e \<Rightarrow>
               if is_AMQPError e
               then (Some e, b1, tr1 @ [Publish event_name data, Log Exception ''Failed to publish event.''])
               else (Some e, b1, tr1 @ [Publish event_name data])))"

text \<open>
  \<^verbatim>\<open>subscribe\<close>: connect, declare the queue \<^verbatim>\<open>{event_name}_queue\<close>, bind it, log, then in the
  \<^verbatim>\<open>try\<close> start consuming and append the pair; an \<^verbatim>\<open>AMQPError\<close> of consuming is logged and
  raised again, any other exception passes through.
\<close>

definition subscribe ::
  "broker_env \<Rightarrow> event_bus \<Rightarrow> string \<Rightarrow> handler \<Rightarrow> exn option \<times> event_bus \<times> bus_event list" where
  "subscribe env b event_name h =
     (case connect env b of
        (Some e, b1, tr1) \<Rightarrow> (Some e, b1, tr1)
      | (None, b1, tr1) \<Rightarrow>
          (case declare_queue_result env of
             Some e \<Rightarrow> (Some e, b1, tr1 @ [DeclareQueue (event_name @ ''_queue'')])
           | None \<Rightarrow>
               (case bind_result env of
                  Some e \<Rightarrow> (Some e, b1, tr1 @ [DeclareQueue (event_name @ ''_queue''), Bind event_name])
                | None \<Rightarrow>
                    (let tr2 = tr1 @ [DeclareQueue (event_name @ ''_queue''), Bind event_name,
                                      Log Info ''Queue bound to exchange with routing key.''] in
                     case consume_result env of
                       None \<Rightarrow>
                         (None, b1\<lparr> subscriptions := subscriptions b1 @ [(event_name, h)] \<rparr>,
                          tr2 @ [Consume])
                     | Some e \<Rightarrow>
                         if is_AMQPError e
                         then (Some e, b1, tr2 @ [Consume, Log Exception ''Failed to subscribe to event.''])
                         else (Some e, b1, tr2 @ [Consume])))))"

subsection \<open>A store, an environment and a message for concrete runs\<close>

definition fresh_store :: event_store where
  "fresh_store = \<lparr> redis = False, db = Map.empty \<rparr>"

definition no_faults :: redis_env where
  "no_faults = \<lparr> from_url_fails = False, exists_fails = False, set_fails = False \<rparr>"

definition sample_event :: "(string \<times> json_value) list" where
  "sample_event = [(''event_id'', JStr ''e1''), (''event_type'', JStr ''Notification''), (''text'', JStr ''X'')]"

definition broker_ok :: broker_env where
  "broker_ok =
     \<lparr> connect_robust_result = None, channel_result = None, declare_exchange_result = None,
       declare_queue_result = None, bind_result = None, consume_result = None \<rparr>"

section \<open>Properties of the HTTP client\<close>

declare retrying.simps [simp del]

subsection \<open>One attempt\<close>

lemma raw_request_no_attempt: "Attempt k \<notin> set (snd (raw_request c out))"
  by (auto simp: raw_request_def Let_def split: option.splits sum.splits exn.splits)

lemma raw_request_open:
  assumes "session c = Some s" "\<not> closed s"
  shows "fst (raw_request c out) = try_request out"
    and "underlying_calls (snd (raw_request c out)) = 1"
  using assms
  by (auto simp: raw_request_def Let_def underlying_calls_def split: option.splits sum.splits exn.splits)

lemma underlying_calls_append [simp]:
  "underlying_calls (xs @ ys) = underlying_calls xs + underlying_calls ys"
  by (simp add: underlying_calls_def)

lemma underlying_calls_Cons_Attempt [simp]:
  "underlying_calls (Attempt n # xs) = underlying_calls xs"
  by (simp add: underlying_calls_def)

lemma underlying_calls_sleep [simp]:
  "underlying_calls (BeforeSleepLog n # Sleep w # xs) = underlying_calls xs"
  by (simp add: underlying_calls_def)

lemma entered_client [simp]:
  "session (aenter (client_init rl t mr bs)) = Some \<lparr> total_timeout = t, closed = False \<rparr>"
  "max_attempt_number (retry_cfg (aenter (client_init rl t mr bs))) = mr"
  "multiplier (retry_cfg (aenter (client_init rl t mr bs))) = bs"
  "max_retries (aenter (client_init rl t mr bs)) = mr"
  "backoff_start (aenter (client_init rl t mr bs)) = bs"
  by (simp_all add: aenter_def client_init_def)

subsection \<open>One round of the loop\<close>

lemma retrying_result:
  "raw_request c (env n) = (Inr v, tr) \<Longrightarrow> retrying c env n = (Inr v, Attempt n # tr)"
  by (simp add: retrying.simps)

lemma retrying_not_retried:
  "raw_request c (env n) = (Inl e, tr) \<Longrightarrow> \<not> is_ClientError e \<Longrightarrow>
   retrying c env n = (Inl e, Attempt n # tr)"
  by (simp add: retrying.simps)

lemma retrying_stop:
  "raw_request c (env n) = (Inl e, tr) \<Longrightarrow> is_ClientError e \<Longrightarrow>
   max_attempt_number (retry_cfg c) \<le> int n \<Longrightarrow>
   retrying c env n = (Inl (RetryError e), Attempt n # tr)"
  by (simp add: retrying.simps stop_after_attempt_def)

lemma retrying_again:
  "raw_request c (env n) = (Inl e, tr) \<Longrightarrow> is_ClientError e \<Longrightarrow>
   int n < max_attempt_number (retry_cfg c) \<Longrightarrow>
   retrying c env n =
     (fst (retrying c env (Suc n)),
      Attempt n # tr @ [BeforeSleepLog n, Sleep (wait_exponential (multiplier (retry_cfg c)) n)]
        @ snd (retrying c env (Suc n)))"
  by (subst retrying.simps) (simp add: stop_after_attempt_def split: prod.splits)

lemma retrying_head: "\<exists>rest. snd (retrying c env n) = Attempt n # rest"
  by (subst retrying.simps) (auto split: prod.splits sum.splits)

lemma retrying_cases:
  obtains (final) tr where "snd (retrying c env n) = Attempt n # tr"
      "snd (raw_request c (env n)) = tr"
  | (again) tr where "snd (raw_request c (env n)) = tr"
      "snd (retrying c env n) =
         Attempt n # tr @ [BeforeSleepLog n, Sleep (wait_exponential (multiplier (retry_cfg c)) n)]
           @ snd (retrying c env (Suc n))"
      "int n < max_attempt_number (retry_cfg c)"
proof (cases "raw_request c (env n)")
  case (Pair r tr)
  show thesis
  proof (cases r)
    case (Inr v)
    with Pair final[of tr] retrying_result[of c env n v tr] show thesis by simp
  next
    case (Inl e)
    show thesis
    proof (cases "is_ClientError e \<and> int n < max_attempt_number (retry_cfg c)")
      case True
      with Pair Inl again[of tr] retrying_again[of c env n e tr] show thesis by simp
    next
      case False
      with Pair Inl final[of tr] retrying_not_retried[of c env n e tr] retrying_stop[of c env n e tr]
      show thesis by (cases "is_ClientError e") auto
    qed
  qed
qed

subsection \<open>Runs of the loop\<close>

text \<open>
  When every attempt from \<open>n\<close> up to the limit ends in a client error, the loop stops at
  attempt \<open>max n max_attempt_number\<close> with the retry error around that attempt's exception.
\<close>

lemma retrying_all_fail:
  assumes s: "session c = Some s" "\<not> closed s"
    and fail: "\<And>i. n \<le> i \<Longrightarrow> i \<le> max n (nat (max_attempt_number (retry_cfg c))) \<Longrightarrow>
                 try_request (env i) = Inl (e i) \<and> is_ClientError (e i)"
  shows "fst (retrying c env n) = Inl (RetryError (e (max n (nat (max_attempt_number (retry_cfg c))))))
       \<and> underlying_calls (snd (retrying c env n)) = Suc (max n (nat (max_attempt_number (retry_cfg c))) - n)"
  using fail
proof (induction "nat (max_attempt_number (retry_cfg c)) - n" arbitrary: n)
  case 0
  have f: "try_request (env n) = Inl (e n) \<and> is_ClientError (e n)" using "0.prems"[of n] by simp
  obtain tr where rr: "raw_request c (env n) = (Inl (e n), tr)" and calls: "underlying_calls tr = 1"
    using raw_request_open[OF s, of "env n"] f by (cases "raw_request c (env n)") auto
  have stop: "max_attempt_number (retry_cfg c) \<le> int n" using "0.hyps" by linarith
  have m: "max n (nat (max_attempt_number (retry_cfg c))) = n" using stop by linarith
  show ?case using retrying_stop[of c env n, OF rr _ stop] f calls by (simp add: m)
next
  case (Suc k)
  have f: "try_request (env n) = Inl (e n) \<and> is_ClientError (e n)" using Suc.prems[of n] by simp
  obtain tr where rr: "raw_request c (env n) = (Inl (e n), tr)" and calls: "underlying_calls tr = 1"
    using raw_request_open[OF s, of "env n"] f by (cases "raw_request c (env n)") auto
  have go: "int n < max_attempt_number (retry_cfg c)" using Suc.hyps(2) by linarith
  have k: "k = nat (max_attempt_number (retry_cfg c)) - Suc n" using Suc.hyps(2) by linarith
  have m: "max (Suc n) (nat (max_attempt_number (retry_cfg c))) = max n (nat (max_attempt_number (retry_cfg c)))"
    using go by linarith
  have ih: "fst (retrying c env (Suc n)) = Inl (RetryError (e (max (Suc n) (nat (max_attempt_number (retry_cfg c))))))
       \<and> underlying_calls (snd (retrying c env (Suc n))) = Suc (max (Suc n) (nat (max_attempt_number (retry_cfg c))) - Suc n)"
    using Suc.hyps(1)[OF k] Suc.prems m by simp
  have m2: "Suc n \<le> max n (nat (max_attempt_number (retry_cfg c)))" using go by linarith
  show ?case using retrying_again[of c env n, OF rr _ go] f ih calls m2 by (simp add: m)
qed

text \<open>
  When \<open>k\<close> attempts from \<open>n\<close> on end in a client error and the next one, within the limit,
  ends the loop, the call ends with that attempt's outcome after \<open>k + 1\<close> calls.
\<close>

lemma retrying_ends_after:
  assumes s: "session c = Some s" "\<not> closed s"
    and fail: "\<And>i. n \<le> i \<Longrightarrow> i < n + k \<Longrightarrow> try_request (env i) = Inl (e i) \<and> is_ClientError (e i)"
    and final: "try_request (env (n + k)) = r" "ends_loop r"
    and budget: "0 < k \<Longrightarrow> int (n + k) \<le> max_attempt_number (retry_cfg c)"
  shows "fst (retrying c env n) = r \<and> underlying_calls (snd (retrying c env n)) = Suc k"
  using fail final budget
proof (induction k arbitrary: n)
  case 0
  obtain x tr where rr: "raw_request c (env n) = (x, tr)" by (cases "raw_request c (env n)") auto
  have x: "x = r" and calls: "underlying_calls tr = 1"
    using raw_request_open[OF s, of "env n"] rr "0.prems"(2) by auto
  show ?case
  proof (cases r)
    case (Inr v)
    with retrying_result[of c env n v tr] rr x calls show ?thesis by simp
  next
    case (Inl e')
    with retrying_not_retried[of c env n e' tr] rr x calls "0.prems"(3) show ?thesis by simp
  qed
next
  case (Suc k)
  obtain tr where rr: "raw_request c (env n) = (Inl (e n), tr)" and calls: "underlying_calls tr = 1"
    using raw_request_open[OF s, of "env n"] Suc.prems(1)[of n] by (cases "raw_request c (env n)") auto
  have go: "int n < max_attempt_number (retry_cfg c)" using Suc.prems(4) by simp
  have ih: "fst (retrying c env (Suc n)) = r \<and> underlying_calls (snd (retrying c env (Suc n))) = Suc k"
    using Suc.IH[of "Suc n"] Suc.prems by simp
  show ?case using retrying_again[of c env n, OF rr _ go] Suc.prems(1)[of n] ih calls by simp
qed

text \<open>
  An attempt after the first is directly preceded by the log of \<^verbatim>\<open>before_sleep\<close> and the
  sleep computed from the number of the attempt before it.
\<close>

lemma retrying_sleep_before:
  assumes "n < k" "Attempt k \<in> set (snd (retrying c env n))"
  shows "\<exists>pre post. snd (retrying c env n) =
           pre @ [BeforeSleepLog (k - 1), Sleep (wait_exponential (multiplier (retry_cfg c)) (k - 1)), Attempt k] @ post"
  using assms
proof (induction "k - n" arbitrary: n)
  case 0
  then show ?case by simp
next
  case (Suc d)
  show ?case
  proof (cases rule: retrying_cases[of c env n])
    case (final tr)
    with Suc.prems raw_request_no_attempt[of k c "env n"] show ?thesis by auto
  next
    case (again tr)
    let ?w = "wait_exponential (multiplier (retry_cfg c)) n"
    have inrest: "Attempt k \<in> set (snd (retrying c env (Suc n)))"
      using Suc.prems again raw_request_no_attempt[of k c "env n"] by auto
    show ?thesis
    proof (cases "k = Suc n")
      case True
      obtain rest where rest: "snd (retrying c env (Suc n)) = Attempt (Suc n) # rest"
        using retrying_head by blast
      have "snd (retrying c env n) = (Attempt n # tr) @ [BeforeSleepLog (k - 1), Sleep (wait_exponential (multiplier (retry_cfg c)) (k - 1)), Attempt k] @ rest"
        using again(2) rest True by simp
      then show ?thesis by blast
    next
      case False
      then have lt: "Suc n < k" using Suc.prems(1) by simp
      have d: "d = k - Suc n" using Suc.hyps(2) by simp
      obtain pre post where pp: "snd (retrying c env (Suc n)) =
           pre @ [BeforeSleepLog (k - 1), Sleep (wait_exponential (multiplier (retry_cfg c)) (k - 1)), Attempt k] @ post"
        using Suc.hyps(1)[OF d lt inrest] by blast
      have "snd (retrying c env n) = (Attempt n # tr @ [BeforeSleepLog n, Sleep ?w] @ pre)
          @ [BeforeSleepLog (k - 1), Sleep (wait_exponential (multiplier (retry_cfg c)) (k - 1)), Attempt k] @ post"
        using again(2) pp by simp
      then show ?thesis by blast
    qed
  qed
qed

lemma wait_exponential_value:
  "2 \<le> k \<Longrightarrow> wait_exponential m (k - 1) = max 0 (min (m * 2 ^ (k - 2)) MAX_WAIT)"
proof -
  assume "2 \<le> k"
  then obtain j where k: "k = Suc (Suc j)" by (metis Suc_le_D numeral_2_eq_2 Suc_le_mono)
  show ?thesis by (simp add: wait_exponential_def k)
qed

subsection \<open>Claims about the retry policy\<close>

text \<open>
  What \<^verbatim>\<open>request\<close> does when the first \<open>j - 1\<close> attempts raise client errors and attempt
  \<open>j\<close>, within the limit, times out: the timeout is raised as it is after \<open>j\<close> calls.
\<close>

lemma request_timeout_at:
  assumes env: "\<And>i. 1 \<le> i \<Longrightarrow> i \<le> j \<Longrightarrow> env i = Failed (e i)"
    and j: "1 \<le> j" "e j = TimeoutError" "1 < j \<Longrightarrow> int j \<le> mr"
    and before: "\<And>i. 1 \<le> i \<Longrightarrow> i < j \<Longrightarrow> is_ClientError (e i)"
  shows "fst (request (aenter (client_init rl t mr bs)) env) = Inl TimeoutError
       \<and> underlying_calls (snd (request (aenter (client_init rl t mr bs)) env)) = j"
proof -
  obtain d where d: "j = Suc d" using j(1) by (cases j) auto
  have f: "try_request (env i) = Inl (e i) \<and> is_ClientError (e i)" if "1 \<le> i" "i < 1 + d" for i
    using env[of i] before[of i] that d by simp
  have fin: "try_request (env (1 + d)) = Inl TimeoutError" using env[of j] j d by simp
  have b: "0 < d \<Longrightarrow> int (1 + d) \<le> max_attempt_number (retry_cfg (aenter (client_init rl t mr bs)))"
    using j(3) d by simp
  show ?thesis
    using retrying_ends_after[of "aenter (client_init rl t mr bs)" _ 1 d env e "Inl TimeoutError"] f fin b d
    by (simp add: request_def)
qed

text \<open>
  C4, as amended. Let \<open>k < max_retries\<close>, let the underlying HTTP call raise a transport
  error at the attempts 1 to \<open>k\<close> and answer attempt \<open>k + 1\<close> with a status below 400 and a
  body that parses. If the \<open>k\<close> errors are client errors (\<^verbatim>\<open>aiohttp.ClientError\<close>: connection
  refused or reset), \<^verbatim>\<open>request\<close> returns that body and the underlying call has been made
  exactly \<open>k + 1\<close> times. A timeout is not retried: if attempt \<open>j\<close> is the first to time out,
  \<^verbatim>\<open>request\<close> raises \<^verbatim>\<open>TimeoutError\<close> after exactly \<open>j\<close> calls and returns no result.
\<close>

theorem request_after_k_transport_errors:
  assumes "int k < mr"
    and "\<forall>i. 1 \<le> i \<and> i \<le> k \<longrightarrow> env i = Failed (e i) \<and> transport_error (e i)"
    and "env (k + 1) = Response status (Inr v)" "status < 400"
  shows "((\<forall>i. 1 \<le> i \<and> i \<le> k \<longrightarrow> is_ClientError (e i)) \<longrightarrow>
            fst (request (aenter (client_init rl t mr bs)) env) = Inr v
          \<and> underlying_calls (snd (request (aenter (client_init rl t mr bs)) env)) = k + 1)
       \<and> (1 \<le> j \<and> j \<le> k \<and> e j = TimeoutError \<and> (\<forall>i. 1 \<le> i \<and> i < j \<longrightarrow> is_ClientError (e i)) \<longrightarrow>
            fst (request (aenter (client_init rl t mr bs)) env) = Inl TimeoutError
          \<and> underlying_calls (snd (request (aenter (client_init rl t mr bs)) env)) = j)"
proof (intro conjI impI)
  assume ce: "\<forall>i. 1 \<le> i \<and> i \<le> k \<longrightarrow> is_ClientError (e i)"
  have f: "try_request (env i) = Inl (e i) \<and> is_ClientError (e i)" if "1 \<le> i" "i < 1 + k" for i
    using assms(2) ce that by simp
  have ok: "try_request (env (1 + k)) = Inr v" using assms(3,4) by simp
  have both: "fst (request (aenter (client_init rl t mr bs)) env) = Inr v
          \<and> underlying_calls (snd (request (aenter (client_init rl t mr bs)) env)) = k + 1"
    using retrying_ends_after[of "aenter (client_init rl t mr bs)" _ 1 k env e "Inr v"] f ok assms(1)
    by (simp add: request_def)
  show "fst (request (aenter (client_init rl t mr bs)) env) = Inr v" using both by simp
  show "underlying_calls (snd (request (aenter (client_init rl t mr bs)) env)) = k + 1" using both by simp
next
  assume a: "1 \<le> j \<and> j \<le> k \<and> e j = TimeoutError \<and> (\<forall>i. 1 \<le> i \<and> i < j \<longrightarrow> is_ClientError (e i))"
  have both: "fst (request (aenter (client_init rl t mr bs)) env) = Inl TimeoutError
       \<and> underlying_calls (snd (request (aenter (client_init rl t mr bs)) env)) = j"
  proof (rule request_timeout_at[where e = e])
    show "env i = Failed (e i)" if "1 \<le> i" "i \<le> j" for i using assms(2) a that by simp
    show "1 \<le> j" "e j = TimeoutError" using a by simp_all
    show "int j \<le> mr" using a assms(1) by linarith
    show "is_ClientError (e i)" if "1 \<le> i" "i < j" for i using a that by simp
  qed
  show "fst (request (aenter (client_init rl t mr bs)) env) = Inl TimeoutError" using both by simp
  show "underlying_calls (snd (request (aenter (client_init rl t mr bs)) env)) = j" using both by simp
qed

text \<open>
  Two runs with two attempts allowed: the repository's test \<^verbatim>\<open>test_api_client_retry_request\<close>
  (one client error, then a response 200), and one client error followed by a timeout with a
  response 200 waiting at the third attempt.
\<close>

theorem request_after_k_transport_errors_witness:
  "fst (request (aenter (client_init None 5 2 (1 / 100)))
          (scripted [Failed (ClientError ''Temporary error.'')]
             (Response 200 (Inr (JObj [(''retry'', JStr ''succeeded'')])))))
     = Inr (JObj [(''retry'', JStr ''succeeded'')])
   \<and> underlying_calls (snd (request (aenter (client_init None 5 2 (1 / 100)))
          (scripted [Failed (ClientError ''Temporary error.'')]
             (Response 200 (Inr (JObj [(''retry'', JStr ''succeeded'')])))))) = 2
   \<and> fst (request (aenter (client_init None 5 3 (1 / 100)))
          (scripted [Failed (ClientError ''reset''), Failed TimeoutError]
             (Response 200 (Inr JNull)))) = Inl TimeoutError
   \<and> underlying_calls (snd (request (aenter (client_init None 5 3 (1 / 100)))
          (scripted [Failed (ClientError ''reset''), Failed TimeoutError]
             (Response 200 (Inr JNull))))) = 2"
proof -
  let ?env1 = "scripted [Failed (ClientError ''Temporary error.'')]
             (Response 200 (Inr (JObj [(''retry'', JStr ''succeeded'')])))"
  let ?env2 = "scripted [Failed (ClientError ''reset''), Failed TimeoutError] (Response 200 (Inr JNull))"
  let ?e2 = "\<lambda>i::nat. if i = 1 then ClientError ''reset'' else TimeoutError"
  have h1: "\<forall>i. 1 \<le> i \<and> i \<le> 1 \<longrightarrow>
      ?env1 i = Failed (ClientError ''Temporary error.'') \<and> transport_error (ClientError ''Temporary error.'')"
    by (auto simp: scripted_def)
  have h2: "\<forall>i. 1 \<le> i \<and> i \<le> 2 \<longrightarrow> ?env2 i = Failed (?e2 i) \<and> transport_error (?e2 i)"
  proof (intro allI impI)
    fix i :: nat
    assume "1 \<le> i \<and> i \<le> 2"
    then have "i = 1 \<or> i = 2" by auto
    then show "?env2 i = Failed (?e2 i) \<and> transport_error (?e2 i)"
      by (auto simp: scripted_def)
  qed
  have a: "fst (request (aenter (client_init None 5 2 (1 / 100))) ?env1)
             = Inr (JObj [(''retry'', JStr ''succeeded'')])
         \<and> underlying_calls (snd (request (aenter (client_init None 5 2 (1 / 100))) ?env1)) = 2"
    using request_after_k_transport_errors[where k = 1 and mr = 2 and status = 200 and env = ?env1
        and e = "\<lambda>i. ClientError ''Temporary error.''" and v = "JObj [(''retry'', JStr ''succeeded'')]"
        and rl = None and t = 5 and bs = "1 / 100" and j = 1, OF _ h1]
    by (simp add: scripted_def)
  have b: "fst (request (aenter (client_init None 5 3 (1 / 100))) ?env2) = Inl TimeoutError
         \<and> underlying_calls (snd (request (aenter (client_init None 5 3 (1 / 100))) ?env2)) = 2"
    using request_after_k_transport_errors[where k = 2 and mr = 3 and status = 200 and env = ?env2
        and e = ?e2 and v = JNull and rl = None and t = 5 and bs = "1 / 100" and j = 2, OF _ h2]
    by (simp add: scripted_def)
  show ?thesis using a b by simp
qed

text \<open>
  C4 as stated fails when the transport error is the timeout: with two attempts allowed, a
  timeout at the first attempt and a response 200 ready for the second, \<^verbatim>\<open>request\<close> raises
  \<^verbatim>\<open>TimeoutError\<close> after one call.
\<close>

theorem request_after_k_transport_errors_counterexample:
  "transport_error TimeoutError
   \<and> fst (request (aenter (client_init None 5 2 (1 / 100)))
          (scripted [Failed TimeoutError] (Response 200 (Inr (JObj [(''retry'', JStr ''succeeded'')])))))
       = Inl TimeoutError
   \<and> underlying_calls (snd (request (aenter (client_init None 5 2 (1 / 100)))
          (scripted [Failed TimeoutError] (Response 200 (Inr (JObj [(''retry'', JStr ''succeeded'')])))))) = 1"
  by (simp add: request_def retrying.simps raw_request_def aenter_def client_init_def scripted_def
      stop_after_attempt_def underlying_calls_def)

text \<open>
  C3, as amended. Let the underlying HTTP call raise a transport error at every attempt, and
  let \<open>N = max 1 max_retries\<close>. \<^verbatim>\<open>request\<close> always raises, after at most \<open>N\<close> calls. If the
  errors of the attempts 1 to \<open>N\<close> are client errors (\<^verbatim>\<open>aiohttp.ClientError\<close>), it raises
  \<^verbatim>\<open>RetryError\<close> around the exception of attempt \<open>N\<close> after exactly \<open>N\<close> calls: \<open>max_retries\<close> calls
  when \<open>max_retries\<close> is at least 1, one call when it is 0 or negative. A timeout is not
  retried: if attempt \<open>j \<le> N\<close> is the first to time out, \<^verbatim>\<open>request\<close> raises \<^verbatim>\<open>TimeoutError\<close> itself,
  not wrapped, after exactly \<open>j\<close> calls.
\<close>

theorem request_retry_exhaustion:
  assumes "\<forall>i. env i = Failed (e i) \<and> transport_error (e i)"
  shows "((\<forall>i. 1 \<le> i \<and> i \<le> max 1 (nat mr) \<longrightarrow> is_ClientError (e i)) \<longrightarrow>
            fst (request (aenter (client_init rl t mr bs)) env) = Inl (RetryError (e (max 1 (nat mr))))
          \<and> underlying_calls (snd (request (aenter (client_init rl t mr bs)) env)) = max 1 (nat mr))
       \<and> (1 \<le> j \<and> j \<le> max 1 (nat mr) \<and> e j = TimeoutError
            \<and> (\<forall>i. 1 \<le> i \<and> i < j \<longrightarrow> is_ClientError (e i)) \<longrightarrow>
            fst (request (aenter (client_init rl t mr bs)) env) = Inl TimeoutError
          \<and> underlying_calls (snd (request (aenter (client_init rl t mr bs)) env)) = j)
       \<and> (\<exists>x. fst (request (aenter (client_init rl t mr bs)) env) = Inl x)
       \<and> underlying_calls (snd (request (aenter (client_init rl t mr bs)) env)) \<le> max 1 (nat mr)"
proof -
  let ?C = "aenter (client_init rl t mr bs)"
  let ?N = "max 1 (nat mr)"
  have all: "fst (request ?C env) = Inl (RetryError (e ?N)) \<and> underlying_calls (snd (request ?C env)) = ?N"
    if ce: "\<forall>i. 1 \<le> i \<and> i \<le> ?N \<longrightarrow> is_ClientError (e i)"
  proof -
    have f: "try_request (env i) = Inl (e i) \<and> is_ClientError (e i)" if "1 \<le> i" "i \<le> ?N" for i
      using assms ce that by simp
    show ?thesis
      using retrying_all_fail[of ?C _ 1 env e] f by (simp add: request_def)
  qed
  have tmo: "fst (request ?C env) = Inl TimeoutError \<and> underlying_calls (snd (request ?C env)) = i"
    if a: "1 \<le> i" "i \<le> ?N" "e i = TimeoutError" "\<forall>l. 1 \<le> l \<and> l < i \<longrightarrow> is_ClientError (e l)" for i
  proof (rule request_timeout_at[where e = e])
    show "env l = Failed (e l)" for l using assms by simp
    show "1 \<le> i" "e i = TimeoutError" using a by simp_all
    show "int i \<le> mr" if "1 < i" using a(2) that by linarith
    show "is_ClientError (e l)" if "1 \<le> l" "l < i" for l using a(4) that by simp
  qed
  have last2: "(\<exists>x. fst (request ?C env) = Inl x) \<and> underlying_calls (snd (request ?C env)) \<le> ?N"
  proof (cases "\<forall>i. 1 \<le> i \<and> i \<le> ?N \<longrightarrow> is_ClientError (e i)")
    case True
    with all show ?thesis by simp
  next
    case False
    define P where "P i \<longleftrightarrow> 1 \<le> i \<and> i \<le> ?N \<and> \<not> is_ClientError (e i)" for i
    from False obtain i0 where "P i0" unfolding P_def by blast
    define i where "i = (LEAST i. P i)"
    have Pi: "P i" unfolding i_def using \<open>P i0\<close> by (rule LeastI)
    have least: "\<not> P l" if "l < i" for l using that not_less_Least unfolding i_def by blast
    have ti: "transport_error (e i)" using assms by simp
    have "e i = TimeoutError" using Pi ti unfolding P_def by (cases "e i") auto
    moreover have "\<forall>l. 1 \<le> l \<and> l < i \<longrightarrow> is_ClientError (e l)"
      using least Pi unfolding P_def by auto
    ultimately show ?thesis using tmo[of i] Pi unfolding P_def by auto
  qed
  show ?thesis using all tmo[of j] last2 by blast
qed

theorem request_retry_exhaustion_witness:
  "fst (request (aenter (client_init None 10 3 1)) (always (Failed (ClientError ''reset''))))
     = Inl (RetryError (ClientError ''reset''))
   \<and> underlying_calls (snd (request (aenter (client_init None 10 3 1))
        (always (Failed (ClientError ''reset''))))) = 3
   \<and> fst (request (aenter (client_init None 10 3 1))
        (scripted [Failed (ClientError ''reset'')] (Failed TimeoutError))) = Inl TimeoutError
   \<and> underlying_calls (snd (request (aenter (client_init None 10 3 1))
        (scripted [Failed (ClientError ''reset'')] (Failed TimeoutError)))) = 2"
proof -
  let ?env2 = "scripted [Failed (ClientError ''reset'')] (Failed TimeoutError)"
  let ?e2 = "\<lambda>i::nat. if i = 1 then ClientError ''reset'' else TimeoutError"
  have h1: "\<forall>i. always (Failed (ClientError ''reset'')) i = Failed (ClientError ''reset'')
              \<and> transport_error (ClientError ''reset'')"
    by (simp add: always_def)
  have h2: "\<forall>i. ?env2 i = Failed (?e2 i) \<and> transport_error (?e2 i)"
    by (auto simp: scripted_def)
  have a: "fst (request (aenter (client_init None 10 3 1)) (always (Failed (ClientError ''reset''))))
             = Inl (RetryError (ClientError ''reset''))
         \<and> underlying_calls (snd (request (aenter (client_init None 10 3 1))
              (always (Failed (ClientError ''reset''))))) = 3"
    using request_retry_exhaustion[where e = "\<lambda>i. ClientError ''reset''" and rl = None and t = 10
        and mr = 3 and bs = 1 and j = 1, OF h1]
    by simp
  have b: "fst (request (aenter (client_init None 10 3 1)) ?env2) = Inl TimeoutError
         \<and> underlying_calls (snd (request (aenter (client_init None 10 3 1)) ?env2)) = 2"
    using request_retry_exhaustion[where e = ?e2 and rl = None and t = 10
        and mr = 3 and bs = 1 and j = 2, OF h2]
    by simp
  show ?thesis using a b by simp
qed

text \<open>
  C3 as stated fails twice. A client built with \<^verbatim>\<open>max_retries=0\<close> makes the call once, which is
  more than \<open>max_retries\<close> times. And with three attempts allowed, a timeout at every attempt
  ends the request after one call with \<^verbatim>\<open>TimeoutError\<close> itself, not with the aggregate error.
\<close>

theorem request_retry_exhaustion_counterexample:
  "max_retries (aenter (client_init None 10 0 1)) = 0
   \<and> transport_error (ClientError ''reset'')
   \<and> fst (request (aenter (client_init None 10 0 1)) (always (Failed (ClientError ''reset''))))
       = Inl (RetryError (ClientError ''reset''))
   \<and> underlying_calls (snd (request (aenter (client_init None 10 0 1))
        (always (Failed (ClientError ''reset''))))) = 1
   \<and> max_retries (aenter (client_init None 10 3 1)) = 3
   \<and> transport_error TimeoutError
   \<and> fst (request (aenter (client_init None 10 3 1)) (always (Failed TimeoutError))) = Inl TimeoutError
   \<and> underlying_calls (snd (request (aenter (client_init None 10 3 1))
        (always (Failed TimeoutError)))) = 1"
  by (simp add: request_def retrying.simps raw_request_def aenter_def client_init_def always_def
      stop_after_attempt_def underlying_calls_def)

text \<open>
  C5, as amended. Every attempt \<open>k \<ge> 2\<close> of \<^verbatim>\<open>request\<close> is directly preceded by the log of
  the retry and then by a sleep of \<open>backoff_start * 2 ^ (k - 2)\<close> seconds, kept between 0 and
  \<open>MAX_WAIT\<close>: the first wait is \<open>backoff_start\<close> itself, and the wait doubles from there.
\<close>

theorem backoff_before_attempt:
  assumes "2 \<le> k" "Attempt k \<in> set (snd (request (aenter (client_init rl t mr bs)) env))"
  shows "\<exists>pre post. snd (request (aenter (client_init rl t mr bs)) env) =
           pre @ [BeforeSleepLog (k - 1), Sleep (max 0 (min (bs * 2 ^ (k - 2)) MAX_WAIT)), Attempt k] @ post"
  using retrying_sleep_before[of 1 k "aenter (client_init rl t mr bs)" env] assms
    wait_exponential_value[of k bs]
  by (simp add: request_def)

lemma three_failures_trace:
  "snd (request (aenter (client_init None 10 3 1)) (always (Failed (ClientError ''reset''))))
     = [Attempt 1, LogDebugRequest, HttpCall, LogRequestFailed, BeforeSleepLog 1, Sleep 1,
        Attempt 2, LogDebugRequest, HttpCall, LogRequestFailed, BeforeSleepLog 2, Sleep 2,
        Attempt 3, LogDebugRequest, HttpCall, LogRequestFailed]"
  by (simp add: request_def retrying.simps raw_request_def aenter_def client_init_def always_def
      stop_after_attempt_def wait_exponential_def MAX_WAIT_def)

theorem backoff_before_attempt_witness:
  "\<exists>pre post. snd (request (aenter (client_init None 10 3 1)) (always (Failed (ClientError ''reset'')))) =
       pre @ [BeforeSleepLog 2, Sleep 2, Attempt 3] @ post"
  using backoff_before_attempt[where k = 3 and rl = None and t = 10 and mr = 3 and bs = 1
      and env = "always (Failed (ClientError ''reset''))"]
  by (simp add: three_failures_trace MAX_WAIT_def)

text \<open>
  C5 as stated fails at the second attempt of a client with \<^verbatim>\<open>backoff_start=1\<close>: the sleep
  before it is 1 second, where the claimed \<open>backoff_start * 2 ^ (k - 1)\<close> is 2.
\<close>

theorem backoff_before_attempt_counterexample:
  "snd (request (aenter (client_init None 10 2 1)) (always (Failed (ClientError ''reset''))))
     = [Attempt 1, LogDebugRequest, HttpCall, LogRequestFailed, BeforeSleepLog 1, Sleep 1,
        Attempt 2, LogDebugRequest, HttpCall, LogRequestFailed]
   \<and> backoff_start (aenter (client_init None 10 2 1)) * 2 ^ (2 - 1) = 2"
  by (simp add: request_def retrying.simps raw_request_def aenter_def client_init_def always_def
      stop_after_attempt_def wait_exponential_def MAX_WAIT_def)

subsection \<open>Claims about status errors\<close>

lemma raw_request_status_error:
  assumes "session c = Some s" "\<not> closed s" "400 \<le> status"
  shows "raw_request c (Response status body) =
           (Inl (ClientResponseError status),
            (if rate_limiter c \<noteq> None then [Acquire] else [])
              @ [LogDebugRequest, HttpCall, LogHttpError status])"
  using assms by (simp add: raw_request_def Let_def)

text \<open>
  C2, as amended. For a response with a status of 400 or more, \<^verbatim>\<open>_request\<close> logs the status and
  raises \<^verbatim>\<open>ClientResponseError\<close> with exactly that status. The error is a client error, so the
  retry policy treats it as it treats a connection error. When the responses of the attempts 1
  to \<open>max 1 max_retries\<close> all have such a status, \<^verbatim>\<open>request\<close> makes exactly \<open>max 1 max_retries\<close>
  calls and raises \<^verbatim>\<open>RetryError\<close>, the error that exhausted connection errors end in, around
  the \<^verbatim>\<open>ClientResponseError\<close> of the last response, whose status is unchanged. When the first
  \<open>k < max_retries\<close> responses have such a status and attempt \<open>k + 1\<close> is answered with a status
  below 400 and a body that parses, \<^verbatim>\<open>request\<close> returns that body after \<open>k + 1\<close> calls and no
  error surfaces.
\<close>

theorem status_error_retried_and_wrapped:
  "(400 \<le> status \<longrightarrow>
      fst (raw_request (aenter (client_init rl t mr bs)) (Response status body))
        = Inl (ClientResponseError status)
    \<and> last (snd (raw_request (aenter (client_init rl t mr bs)) (Response status body)))
        = LogHttpError status)
   \<and> ((\<forall>i. 1 \<le> i \<and> i \<le> max 1 (nat mr) \<longrightarrow> env i = Response (st i) (b i) \<and> 400 \<le> st i) \<longrightarrow>
        fst (request (aenter (client_init rl t mr bs)) env)
          = Inl (RetryError (ClientResponseError (st (max 1 (nat mr)))))
      \<and> underlying_calls (snd (request (aenter (client_init rl t mr bs)) env)) = max 1 (nat mr))
   \<and> (int k < mr \<and> (\<forall>i. 1 \<le> i \<and> i \<le> k \<longrightarrow> env' i = Response (st' i) (b' i) \<and> 400 \<le> st' i)
        \<and> env' (k + 1) = Response s (Inr v) \<and> s < 400 \<longrightarrow>
        fst (request (aenter (client_init rl t mr bs)) env') = Inr v
      \<and> underlying_calls (snd (request (aenter (client_init rl t mr bs)) env')) = k + 1)"
proof -
  let ?C = "aenter (client_init rl t mr bs)"
  have one: "fst (raw_request ?C (Response status body)) = Inl (ClientResponseError status)
      \<and> last (snd (raw_request ?C (Response status body))) = LogHttpError status"
    if "400 \<le> status"
    using raw_request_status_error[of ?C _ status body] that by simp
  have all: "fst (request ?C env) = Inl (RetryError (ClientResponseError (st (max 1 (nat mr)))))
      \<and> underlying_calls (snd (request ?C env)) = max 1 (nat mr)"
    if h: "\<forall>i. 1 \<le> i \<and> i \<le> max 1 (nat mr) \<longrightarrow> env i = Response (st i) (b i) \<and> 400 \<le> st i"
  proof -
    have f: "try_request (env i) = Inl (ClientResponseError (st i))
           \<and> is_ClientError (ClientResponseError (st i))" if "1 \<le> i" "i \<le> max 1 (nat mr)" for i
      using h that by simp
    show ?thesis
      using retrying_all_fail[of ?C _ 1 env "\<lambda>i. ClientResponseError (st i)"] f
      by (simp add: request_def)
  qed
  have later: "fst (request ?C env') = Inr v \<and> underlying_calls (snd (request ?C env')) = k + 1"
    if h: "int k < mr \<and> (\<forall>i. 1 \<le> i \<and> i \<le> k \<longrightarrow> env' i = Response (st' i) (b' i) \<and> 400 \<le> st' i)
        \<and> env' (k + 1) = Response s (Inr v) \<and> s < 400"
  proof -
    have f: "try_request (env' i) = Inl (ClientResponseError (st' i))
           \<and> is_ClientError (ClientResponseError (st' i))" if "1 \<le> i" "i < 1 + k" for i
      using h that by simp
    have ok: "try_request (env' (1 + k)) = Inr v" using h by simp
    show ?thesis
      using retrying_ends_after[of ?C _ 1 k env' "\<lambda>i. ClientResponseError (st' i)" "Inr v"] f ok h
      by (simp add: request_def)
  qed
  show ?thesis using one all later by blast
qed

text \<open>
  The run of the repository's test \<^verbatim>\<open>test_api_client_error_response\<close> (every response has
  status 400, three attempts), and a run with a response 500 followed by a response 200.
\<close>

theorem status_error_retried_and_wrapped_witness:
  "fst (raw_request (aenter (client_init None 5 3 1)) (Response 400 (Inr (JObj []))))
     = Inl (ClientResponseError 400)
   \<and> last (snd (raw_request (aenter (client_init None 5 3 1)) (Response 400 (Inr (JObj [])))))
     = LogHttpError 400
   \<and> fst (request (aenter (client_init None 5 3 1)) (always (Response 400 (Inr (JObj [])))))
       = Inl (RetryError (ClientResponseError 400))
   \<and> underlying_calls (snd (request (aenter (client_init None 5 3 1))
        (always (Response 400 (Inr (JObj [])))))) = 3
   \<and> fst (request (aenter (client_init None 5 3 1))
        (scripted [Response 500 (Inr JNull)] (Response 200 (Inr (JStr ''ok''))))) = Inr (JStr ''ok'')
   \<and> underlying_calls (snd (request (aenter (client_init None 5 3 1))
        (scripted [Response 500 (Inr JNull)] (Response 200 (Inr (JStr ''ok'')))))) = 2"
  using status_error_retried_and_wrapped[where status = 400 and body = "Inr (JObj [])"
      and env = "always (Response 400 (Inr (JObj [])))" and st = "\<lambda>i. 400" and b = "\<lambda>i. Inr (JObj [])"
      and env' = "scripted [Response 500 (Inr JNull)] (Response 200 (Inr (JStr ''ok'')))"
      and st' = "\<lambda>i. 500" and b' = "\<lambda>i. Inr JNull" and k = 1 and s = 200 and v = "JStr ''ok''"
      and rl = None and t = 5 and mr = 3 and bs = 1]
  by (auto simp: always_def scripted_def)

text \<open>
  C2 as stated fails twice. A request whose first response has status 500 and whose second
  has status 200 returns the body: no error surfaces. And when every response has status
  400, what surfaces is \<^verbatim>\<open>RetryError\<close>, the error that exhausted connection errors surface as.
\<close>

theorem status_error_counterexample:
  "fst (request (aenter (client_init None 10 3 1))
          (scripted [Response 500 (Inr JNull)] (Response 200 (Inr (JStr ''ok'')))))
     = Inr (JStr ''ok'')
   \<and> fst (request (aenter (client_init None 10 3 1)) (always (Response 400 (Inr (JObj [])))))
       = Inl (RetryError (ClientResponseError 400))
   \<and> fst (request (aenter (client_init None 10 3 1)) (always (Failed (ClientError ''reset''))))
       = Inl (RetryError (ClientError ''reset''))"
  by (simp add: request_def retrying.simps raw_request_def aenter_def client_init_def always_def
      scripted_def stop_after_attempt_def)

section \<open>Properties of the event bus\<close>

subsection \<open>Messages that cannot be parsed\<close>

lemma on_message_invalid_json:
  "on_message h env st InvalidJson =
     (Some MessageProcessError, st, [Parse, Log Exception ''Invalid JSON in message.'', Reject False])"
  by (simp add: on_message_def on_message_try_def try_body_def reject_def)

lemma on_message_invalid_utf8:
  "on_message h env st InvalidUtf8 =
     (Some MessageProcessError, st, [Parse, Log Exception ''Error processing message.'', Reject True])"
  by (simp add: on_message_def on_message_try_def try_body_def reject_def ack_def)

subsection \<open>The steps of a delivery\<close>

text \<open>The store's operations only log: they contribute none of the five steps.\<close>

lemma steps_initialize: "steps (snd (snd (initialize env st))) = []"
  by (simp add: initialize_def steps_def)

lemma steps_is_processed: "steps (snd (snd (is_processed env st eid))) = []"
  by (auto simp: is_processed_def initialize_def steps_def split: option.splits)

lemma steps_mark: "steps (snd (snd (mark_as_processed env st eid))) = []"
  by (auto simp: mark_as_processed_def initialize_def steps_def split: option.splits)

lemma steps_append [simp]: "steps (xs @ ys) = steps xs @ steps ys"
  by (simp add: steps_def)

lemma steps_Cons [simp]: "steps (x # xs) = (if is_step x then x # steps xs else steps xs)"
  by (simp add: steps_def)

lemma steps_Nil [simp]: "steps [] = []"
  by (simp add: steps_def)

text \<open>
  The steps of the statements after the identity check, with what each shape tells about
  the handler and the exception raised.
\<close>

lemma process_event_shape:
  assumes "process_event h env st data eid = (r, st1, tr)"
  shows "(steps tr = [DedupeCheck eid] \<and> (r = None \<or> r = Some RedisError))
       \<or> (\<exists>e. steps tr = [DedupeCheck eid, InvokeHandler data] \<and> h data = Some e \<and> r = Some e)
       \<or> (steps tr = [DedupeCheck eid, InvokeHandler data, MarkProcessed eid] \<and> h data = None)"
proof -
  obtain x sa ta where ip: "is_processed env st eid = (x, sa, ta)" by (cases "is_processed env st eid") auto
  have ta: "steps ta = []" using steps_is_processed[of env st eid] ip by simp
  obtain y sb tb where mp: "mark_as_processed env sa eid = (y, sb, tb)" by (cases "mark_as_processed env sa eid") auto
  have tb: "steps tb = []" using steps_mark[of env sa eid] mp by simp
  have xr: "x = Inl e \<Longrightarrow> e = RedisError" for e
    using ip by (auto simp: is_processed_def initialize_def split: option.splits if_splits)
  show ?thesis using assms ip mp ta tb xr
    by (cases "h data") (auto simp: process_event_def split: sum.splits bool.splits option.splits)
qed

lemma try_body_shape:
  assumes "try_body h env st p = (r, pr, st1, tr)"
  shows "(steps tr = [Parse] \<and> (r = None \<longrightarrow> pr))
       \<or> (\<exists>eid. steps tr = [Parse, DedupeCheck eid] \<and> \<not> pr)
       \<or> (\<exists>eid d e. steps tr = [Parse, DedupeCheck eid, InvokeHandler d] \<and> \<not> pr \<and> h d = Some e \<and> r = Some e)
       \<or> (\<exists>eid d. steps tr = [Parse, DedupeCheck eid, InvokeHandler d, MarkProcessed eid] \<and> \<not> pr \<and> h d = None)"
proof (cases p)
  case InvalidUtf8
  with assms show ?thesis by (auto simp: try_body_def)
next
  case InvalidJson
  with assms show ?thesis by (auto simp: try_body_def)
next
  case (Json data)
  show ?thesis
  proof (cases data)
    case (JObj kvs)
    show ?thesis
    proof (cases "truthy (dict_get kvs ''event_id'')")
      case False
      with assms Json JObj show ?thesis by (auto simp: try_body_def reject_def)
    next
      case True
      obtain r' s' t' where pe: "process_event h env st data (dict_get kvs ''event_id'') = (r', s', t')"
        by (cases "process_event h env st data (dict_get kvs ''event_id'')") auto
      from assms Json JObj True pe have eq: "r = r'" "pr = False" "tr = Parse # t'"
        by (auto simp: try_body_def)
      from process_event_shape[OF pe] eq show ?thesis by auto
    qed
  qed (use assms Json in \<open>auto simp: try_body_def\<close>)
qed

text \<open>
  C6. For every message delivered to \<^verbatim>\<open>on_message\<close>, the steps parse, dedupe-check, handler
  invocation, mark-as-processed and acknowledge occur in this order and each at most once:
  the steps of a delivery are one of the six sequences below. \<^verbatim>\<open>mark_as_processed\<close> is called
  only after the handler has been invoked and has completed without an exception, and an
  acknowledgement comes last, after the marking when there is one.
\<close>

theorem processing_steps_in_order:
  "\<exists>eid d.
     steps (snd (snd (on_message h env st p))) = [Parse]
   \<or> steps (snd (snd (on_message h env st p))) = [Parse, DedupeCheck eid]
   \<or> steps (snd (snd (on_message h env st p))) = [Parse, DedupeCheck eid, Ack]
   \<or> steps (snd (snd (on_message h env st p))) = [Parse, DedupeCheck eid, InvokeHandler d]
   \<or> h d = None \<and>
       (steps (snd (snd (on_message h env st p))) = [Parse, DedupeCheck eid, InvokeHandler d, MarkProcessed eid]
      \<or> steps (snd (snd (on_message h env st p))) = [Parse, DedupeCheck eid, InvokeHandler d, MarkProcessed eid, Ack])"
proof -
  obtain r pr st1 tr where tb: "try_body h env st p = (r, pr, st1, tr)"
    by (cases "try_body h env st p") auto
  from try_body_shape[OF tb] show ?thesis
    by (auto simp: on_message_def on_message_try_def tb ack_def reject_def split: option.splits)
qed

subsection \<open>Two deliveries of one event\<close>

lemma first_delivery_novel:
  assumes id: "dict_get kvs ''event_id'' = eid" "truthy eid" "redis_key eid = Some key"
    and novel: "key \<notin> dom (db st)"
    and env: "\<not> from_url_fails env" "\<not> exists_fails env" "\<not> set_fails env"
    and h: "h (JObj kvs) = None"
  shows "fst (on_message h env st (Json (JObj kvs))) = None"
    and "redis (fst (snd (on_message h env st (Json (JObj kvs)))))"
    and "db (fst (snd (on_message h env st (Json (JObj kvs))))) = (db st)(key \<mapsto> 2592000)"
    and "invocations (snd (snd (on_message h env st (Json (JObj kvs))))) = 1"
    and "steps (snd (snd (on_message h env st (Json (JObj kvs)))))
           = [Parse, DedupeCheck eid, InvokeHandler (JObj kvs), MarkProcessed eid, Ack]"
  using assms
  by (auto simp: on_message_def on_message_try_def try_body_def process_event_def is_processed_def
      mark_as_processed_def initialize_def ack_def reject_def invocations_def Let_def)

lemma second_delivery_duplicate:
  assumes id: "dict_get kvs ''event_id'' = eid" "truthy eid" "redis_key eid = Some key"
    and seen: "key \<in> dom (db st)" "redis st"
    and env: "\<not> exists_fails env"
  shows "on_message h env st (Json (JObj kvs)) =
           (None, st, [Parse, DedupeCheck eid, Log Debug ''Checked if event is processed'',
                       Log Info ''Duplicate event received. Skipping processing.'', Ack])"
  using assms
  by (auto simp: on_message_def on_message_try_def try_body_def process_event_def is_processed_def
      initialize_def ack_def Let_def)

lemma elapse_keeps:
  "db st key = Some r \<Longrightarrow> t < r \<Longrightarrow> key \<in> dom (db (elapse t st))"
  "redis (elapse t st) = redis st"
  by (auto simp: elapse_def)

text \<open>
  C1, as amended. Take two deliveries of messages that carry the same \<^verbatim>\<open>event_id\<close>, a truthy
  value Redis accepts as a key. If at the first delivery the event is not yet marked, Redis
  answers and the handler completes without an exception, and the second delivery comes
  less than 2592000 seconds (30 days) later with Redis answering the check, then the
  handler is invoked exactly once over both deliveries: at the second, \<^verbatim>\<open>is_processed\<close>
  returns true, the handler is not invoked, and the message is acknowledged.
\<close>

theorem idempotent_delivery:
  assumes id1: "dict_get kvs1 ''event_id'' = eid" and id2: "dict_get kvs2 ''event_id'' = eid"
    and eid: "truthy eid" "redis_key eid = Some key"
    and novel: "key \<notin> dom (db st)"
    and env1: "\<not> from_url_fails env1" "\<not> exists_fails env1" "\<not> set_fails env1"
    and h1: "h (JObj kvs1) = None"
    and first: "on_message h env1 st (Json (JObj kvs1)) = (r1, st1, tr1)"
    and t: "t < 2592000"
    and env2: "\<not> exists_fails env2"
    and second: "on_message h env2 (elapse t st1) (Json (JObj kvs2)) = (r2, st2, tr2)"
  shows "invocations (tr1 @ tr2) = 1
       \<and> fst (is_processed env2 (elapse t st1) eid) = Inr True
       \<and> r2 = None \<and> invocations tr2 = 0 \<and> last tr2 = Ack"
proof -
  have st1: "redis st1" "db st1 = (db st)(key \<mapsto> 2592000)" and inv1: "invocations tr1 = 1"
    using first_delivery_novel[where h = h, OF id1 eid novel env1 h1] first by simp_all
  have seen: "key \<in> dom (db (elapse t st1))" "redis (elapse t st1)"
    using elapse_keeps(1)[of st1 key 2592000 t] elapse_keeps(2)[of t st1] st1 t by simp_all
  have tr2: "r2 = None" "tr2 = [Parse, DedupeCheck eid, Log Debug ''Checked if event is processed'',
                       Log Info ''Duplicate event received. Skipping processing.'', Ack]"
    using second_delivery_duplicate[where h = h, OF id2 eid seen env2] second by simp_all
  have ip: "fst (is_processed env2 (elapse t st1) eid) = Inr True"
    using seen eid env2 by (simp add: is_processed_def initialize_def)
  show ?thesis using inv1 tr2 ip by (simp add: invocations_def)
qed

theorem idempotent_delivery_witness:
  "invocations
     (snd (snd (on_message handler_ok no_faults fresh_store (Json (JObj sample_event))))
      @ snd (snd (on_message handler_ok no_faults
                   (elapse 60 (fst (snd (on_message handler_ok no_faults fresh_store (Json (JObj sample_event))))))
                   (Json (JObj sample_event))))) = 1
   \<and> fst (on_message handler_ok no_faults
            (elapse 60 (fst (snd (on_message handler_ok no_faults fresh_store (Json (JObj sample_event))))))
            (Json (JObj sample_event))) = None
   \<and> last (snd (snd (on_message handler_ok no_faults
            (elapse 60 (fst (snd (on_message handler_ok no_faults fresh_store (Json (JObj sample_event))))))
            (Json (JObj sample_event))))) = Ack"
  using idempotent_delivery[where h = handler_ok and ?kvs1.0 = sample_event and ?kvs2.0 = sample_event
      and eid = "JStr ''e1''" and key = "''e1''" and st = fresh_store
      and ?env1.0 = no_faults and ?env2.0 = no_faults and t = 60
      and ?r1.0 = "fst (on_message handler_ok no_faults fresh_store (Json (JObj sample_event)))"
      and ?st1.0 = "fst (snd (on_message handler_ok no_faults fresh_store (Json (JObj sample_event))))"
      and ?tr1.0 = "snd (snd (on_message handler_ok no_faults fresh_store (Json (JObj sample_event))))"
      and ?r2.0 = "fst (on_message handler_ok no_faults
            (elapse 60 (fst (snd (on_message handler_ok no_faults fresh_store (Json (JObj sample_event))))))
            (Json (JObj sample_event)))"
      and ?st2.0 = "fst (snd (on_message handler_ok no_faults
            (elapse 60 (fst (snd (on_message handler_ok no_faults fresh_store (Json (JObj sample_event))))))
            (Json (JObj sample_event))))"
      and ?tr2.0 = "snd (snd (on_message handler_ok no_faults
            (elapse 60 (fst (snd (on_message handler_ok no_faults fresh_store (Json (JObj sample_event))))))
            (Json (JObj sample_event))))"]
  by (simp add: dict_get_def sample_event_def fresh_store_def no_faults_def handler_ok_def)

lemma failed_delivery_run:
  "on_message (handler_raising (OtherException ''boom'')) no_faults \<lparr> redis = b, db = Map.empty \<rparr>
       (Json (JObj sample_event)) =
     (Some MessageProcessError, \<lparr> redis = True, db = Map.empty \<rparr>,
      Parse # DedupeCheck (JStr ''e1'')
        # (if b then [] else [Log Debug ''Redis connection pool initialized.''])
        @ [Log Debug ''Checked if event is processed'', InvokeHandler (JObj sample_event),
           Log Exception ''Error processing message.'', Reject True])"
  by (cases b)
     (simp_all add: on_message_def on_message_try_def try_body_def process_event_def is_processed_def
      initialize_def ack_def reject_def dict_get_def sample_event_def no_faults_def handler_raising_def Let_def)

text \<open>
  C1 as stated fails when the handler raises at the first delivery: the message is rejected
  with requeue and nothing is marked, so the second delivery invokes the handler again.
\<close>

theorem idempotent_delivery_counterexample:
  "invocations
     (snd (snd (on_message (handler_raising (OtherException ''boom'')) no_faults fresh_store
                  (Json (JObj sample_event))))
      @ snd (snd (on_message (handler_raising (OtherException ''boom'')) no_faults
                   (fst (snd (on_message (handler_raising (OtherException ''boom'')) no_faults fresh_store
                                (Json (JObj sample_event)))))
                   (Json (JObj sample_event))))) = 2"
  by (simp add: failed_delivery_run fresh_store_def invocations_def)

subsection \<open>Poison messages\<close>

text \<open>
  C7, evaluated. A body that is UTF-8 text but not JSON is rejected without requeue and
  the handler is not invoked. A body that is not UTF-8, which is not valid JSON either,
  raises \<^verbatim>\<open>UnicodeDecodeError\<close>, falls to the general clause and is rejected with requeue:
  the broker delivers it again.
\<close>

theorem undecodable_body_requeued:
  "snd (snd (on_message h env st InvalidJson))
     = [Parse, Log Exception ''Invalid JSON in message.'', Reject False]
   \<and> snd (snd (on_message h env st InvalidUtf8))
     = [Parse, Log Exception ''Error processing message.'', Reject True]"
  by (simp add: on_message_invalid_json on_message_invalid_utf8)

subsection \<open>Exceptions caught by the components\<close>

lemma try_body_raises_unprocessed:
  "try_body h env st p = (Some e, pr, st1, tr) \<Longrightarrow> \<not> pr"
  by (auto simp: try_body_def reject_def Let_def split: payload.splits json_value.splits if_splits prod.splits)

lemma json_clause:
  assumes "try_body h env st p = (Some e, pr, st1, tr)" "is_JSONDecodeError e"
  shows "on_message_try h env st p =
           (Some e, True, st1, tr @ [Log Exception ''Invalid JSON in message.'', Reject False])"
    and "on_message h env st p =
           (Some MessageProcessError, st1, tr @ [Log Exception ''Invalid JSON in message.'', Reject False])"
  using assms try_body_raises_unprocessed[OF assms(1)]
  by (simp_all add: on_message_def on_message_try_def reject_def)

lemma general_clause:
  assumes "try_body h env st p = (Some e, pr, st1, tr)" "is_Exception e" "\<not> is_JSONDecodeError e"
  shows "on_message_try h env st p =
           (None, True, st1, tr @ [Log Exception ''Error processing message.'', Reject True])"
    and "on_message h env st p =
           (Some MessageProcessError, st1, tr @ [Log Exception ''Error processing message.'', Reject True])"
  using assms try_body_raises_unprocessed[OF assms(1)]
  by (simp_all add: on_message_def on_message_try_def reject_def ack_def)

lemma handler_raises_run:
  assumes id: "dict_get kvs ''event_id'' = eid" "truthy eid" "redis_key eid = Some key"
    and novel: "key \<notin> dom (db st)"
    and env: "\<not> from_url_fails env" "\<not> exists_fails env"
    and h: "h (JObj kvs) = Some e"
  shows "try_body h env st (Json (JObj kvs)) =
           (Some e, False, st\<lparr> redis := True \<rparr>,
            Parse # DedupeCheck eid # snd (snd (is_processed env st eid)) @ [InvokeHandler (JObj kvs)])"
  using assms
  by (auto simp: try_body_def process_event_def is_processed_def initialize_def Let_def)

lemma raw_request_client_error:
  assumes "session c = Some s" "\<not> closed s" "try_request out = Inl e" "is_ClientError e"
  shows "fst (raw_request c out) = Inl e"
    and "last (snd (raw_request c out)) =
           (case e of ClientResponseError status \<Rightarrow> LogHttpError status | _ \<Rightarrow> LogRequestFailed)"
  using assms by (auto simp: raw_request_def Let_def split: exn.splits)

text \<open>
  C8, as amended. Where the HTTP client, the event store and the event bus catch an
  exception, they log it and raise it again, with one exception. Logged and raised again
  are: a client error in \<^verbatim>\<open>_request\<close> (both clauses); a \<^verbatim>\<open>RedisError\<close> in \<^verbatim>\<open>initialize\<close>,
  \<^verbatim>\<open>is_processed\<close>, \<^verbatim>\<open>mark_as_processed\<close> and \<^verbatim>\<open>close\<close> of the store; an \<^verbatim>\<open>AMQPError\<close> of connecting in
  \<^verbatim>\<open>connect\<close>, of publishing in \<^verbatim>\<open>publish\<close> and of consuming in \<^verbatim>\<open>subscribe\<close>; a
  \<^verbatim>\<open>JSONDecodeError\<close> raised inside the \<^verbatim>\<open>try\<close> of \<^verbatim>\<open>on_message\<close>, by its clause, after which the
  context manager answers the rejected message a second time and what leaves \<^verbatim>\<open>on_message\<close>
  is the \<^verbatim>\<open>MessageProcessError\<close> of that. The exception is the general clause of \<^verbatim>\<open>on_message\<close>:
  any other \<^verbatim>\<open>Exception\<close> raised inside its \<^verbatim>\<open>try\<close>, in particular one raised by the registered
  handler, is logged and the message is rejected with requeue, but the exception is not
  raised again: the \<^verbatim>\<open>try\<close> statement ends normally, and what leaves \<^verbatim>\<open>on_message\<close> is the
  \<^verbatim>\<open>MessageProcessError\<close> of acknowledging the rejected message. The rate limiter neither logs
  nor raises again what it catches: \<^verbatim>\<open>_fill_tokens\<close> suppresses \<^verbatim>\<open>QueueFull\<close> and \<^verbatim>\<open>stop\<close>
  suppresses \<^verbatim>\<open>CancelledError\<close>.
\<close>

theorem caught_exceptions:
  "(try_request out = Inl ex \<and> is_ClientError ex \<longrightarrow>
      fst (raw_request (aenter (client_init rl t mr bs)) out) = Inl ex
    \<and> last (snd (raw_request (aenter (client_init rl t mr bs)) out)) =
        (case ex of ClientResponseError status \<Rightarrow> LogHttpError status | _ \<Rightarrow> LogRequestFailed))
   \<and> (\<not> redis st1 \<and> from_url_fails env1 \<longrightarrow>
        initialize env1 st1 =
          (Some RedisError, st1, [Log Exception ''Failed to initialize Redis connection pool.'']))
   \<and> (redis st2 \<and> redis_key id2 = Some key2 \<and> exists_fails env2 \<longrightarrow>
        is_processed env2 st2 id2 =
          (Inl RedisError, st2, [Log Exception ''Error checking if event is processed.'']))
   \<and> (redis st3 \<and> redis_key id3 = Some key3 \<and> set_fails env3 \<longrightarrow>
        mark_as_processed env3 st3 id3 =
          (Some RedisError, st3, [Log Exception ''Error marking event as processed.'']))
   \<and> (redis st4 \<longrightarrow>
        close_store True st4 = (Some RedisError, st4, [Log Exception ''Error closing Redis connection.'']))
   \<and> ((connection b5 = None \<or> connection b5 = Some True) \<and> connect_robust_result env5 = Some e5
        \<and> is_AMQPError e5 \<longrightarrow>
        connect env5 b5 = (Some e5, b5, [ConnectRobust, Log Exception ''Failed to connect to RabbitMQ.'']))
   \<and> (fst (connect env6 b6) = None \<and> is_AMQPError e6 \<longrightarrow>
        fst (publish env6 (Some e6) b6 name6 data6) = Some e6
      \<and> last (snd (snd (publish env6 (Some e6) b6 name6 data6))) = Log Exception ''Failed to publish event.'')
   \<and> (fst (connect env7 b7) = None \<and> declare_queue_result env7 = None \<and> bind_result env7 = None
        \<and> consume_result env7 = Some e7 \<and> is_AMQPError e7 \<longrightarrow>
        fst (subscribe env7 b7 name7 h7) = Some e7
      \<and> last (snd (snd (subscribe env7 b7 name7 h7))) = Log Exception ''Failed to subscribe to event.'')
   \<and> (try_body h8 env8 st8 p8 = (Some e8, pr8, st8', tr8) \<and> is_JSONDecodeError e8 \<longrightarrow>
        on_message_try h8 env8 st8 p8 =
          (Some e8, True, st8', tr8 @ [Log Exception ''Invalid JSON in message.'', Reject False])
      \<and> on_message h8 env8 st8 p8 =
          (Some MessageProcessError, st8', tr8 @ [Log Exception ''Invalid JSON in message.'', Reject False]))
   \<and> (try_body h9 env9 st9 p9 = (Some e9, pr9, st9', tr9) \<and> is_Exception e9 \<and> \<not> is_JSONDecodeError e9 \<longrightarrow>
        on_message_try h9 env9 st9 p9 =
          (None, True, st9', tr9 @ [Log Exception ''Error processing message.'', Reject True])
      \<and> on_message h9 env9 st9 p9 =
          (Some MessageProcessError, st9', tr9 @ [Log Exception ''Error processing message.'', Reject True]))
   \<and> (dict_get kvs ''event_id'' = eid \<and> truthy eid \<and> redis_key eid = Some key \<and> key \<notin> dom (db st)
        \<and> \<not> from_url_fails env \<and> \<not> exists_fails env
        \<and> h (JObj kvs) = Some e \<and> is_Exception e \<and> \<not> is_JSONDecodeError e \<longrightarrow>
        fst (try_body h env st (Json (JObj kvs))) = Some e
      \<and> fst (on_message_try h env st (Json (JObj kvs))) = None
      \<and> fst (on_message h env st (Json (JObj kvs))) = Some MessageProcessError
      \<and> (\<exists>pre. snd (snd (on_message h env st (Json (JObj kvs)))) =
            pre @ [InvokeHandler (JObj kvs), Log Exception ''Error processing message.'', Reject True]))
   \<and> (put_nowait q = Inl QueueFull \<longrightarrow> fill_tokens_step q = (None, q, 0))
   \<and> stop (Some CancelledError) limiter = (None, limiter\<lparr> active := False \<rparr>, 0)"
proof -
  have c1: "try_request out = Inl ex \<and> is_ClientError ex \<longrightarrow>
      fst (raw_request (aenter (client_init rl t mr bs)) out) = Inl ex
    \<and> last (snd (raw_request (aenter (client_init rl t mr bs)) out)) =
        (case ex of ClientResponseError status \<Rightarrow> LogHttpError status | _ \<Rightarrow> LogRequestFailed)"
    using raw_request_client_error[of "aenter (client_init rl t mr bs)" _ out ex] by simp
  have c2: "\<not> redis st1 \<and> from_url_fails env1 \<longrightarrow>
        initialize env1 st1 =
          (Some RedisError, st1, [Log Exception ''Failed to initialize Redis connection pool.''])"
    by (simp add: initialize_def)
  have c3: "redis st2 \<and> redis_key id2 = Some key2 \<and> exists_fails env2 \<longrightarrow>
        is_processed env2 st2 id2 =
          (Inl RedisError, st2, [Log Exception ''Error checking if event is processed.''])"
    by (simp add: is_processed_def initialize_def)
  have c4: "redis st3 \<and> redis_key id3 = Some key3 \<and> set_fails env3 \<longrightarrow>
        mark_as_processed env3 st3 id3 =
          (Some RedisError, st3, [Log Exception ''Error marking event as processed.''])"
    by (simp add: mark_as_processed_def initialize_def)
  have c5: "redis st4 \<longrightarrow>
        close_store True st4 = (Some RedisError, st4, [Log Exception ''Error closing Redis connection.''])"
    by (simp add: close_store_def)
  have c6: "(connection b5 = None \<or> connection b5 = Some True) \<and> connect_robust_result env5 = Some e5
        \<and> is_AMQPError e5 \<longrightarrow>
        connect env5 b5 = (Some e5, b5, [ConnectRobust, Log Exception ''Failed to connect to RabbitMQ.''])"
    by (auto simp: connect_def connect_connection_def)
  have c7: "fst (connect env6 b6) = None \<and> is_AMQPError e6 \<longrightarrow>
        fst (publish env6 (Some e6) b6 name6 data6) = Some e6
      \<and> last (snd (snd (publish env6 (Some e6) b6 name6 data6))) = Log Exception ''Failed to publish event.''"
    by (cases "connect env6 b6") (auto simp: publish_def)
  have c8: "fst (connect env7 b7) = None \<and> declare_queue_result env7 = None \<and> bind_result env7 = None
        \<and> consume_result env7 = Some e7 \<and> is_AMQPError e7 \<longrightarrow>
        fst (subscribe env7 b7 name7 h7) = Some e7
      \<and> last (snd (snd (subscribe env7 b7 name7 h7))) = Log Exception ''Failed to subscribe to event.''"
    by (cases "connect env7 b7") (auto simp: subscribe_def Let_def)
  have c9: "try_body h8 env8 st8 p8 = (Some e8, pr8, st8', tr8) \<and> is_JSONDecodeError e8 \<longrightarrow>
        on_message_try h8 env8 st8 p8 =
          (Some e8, True, st8', tr8 @ [Log Exception ''Invalid JSON in message.'', Reject False])
      \<and> on_message h8 env8 st8 p8 =
          (Some MessageProcessError, st8', tr8 @ [Log Exception ''Invalid JSON in message.'', Reject False])"
    using json_clause[of h8 env8 st8 p8 e8 pr8 st8' tr8] by simp
  have c10: "try_body h9 env9 st9 p9 = (Some e9, pr9, st9', tr9) \<and> is_Exception e9 \<and> \<not> is_JSONDecodeError e9 \<longrightarrow>
        on_message_try h9 env9 st9 p9 =
          (None, True, st9', tr9 @ [Log Exception ''Error processing message.'', Reject True])
      \<and> on_message h9 env9 st9 p9 =
          (Some MessageProcessError, st9', tr9 @ [Log Exception ''Error processing message.'', Reject True])"
    using general_clause[of h9 env9 st9 p9 e9 pr9 st9' tr9] by simp
  have c11: "dict_get kvs ''event_id'' = eid \<and> truthy eid \<and> redis_key eid = Some key \<and> key \<notin> dom (db st)
        \<and> \<not> from_url_fails env \<and> \<not> exists_fails env
        \<and> h (JObj kvs) = Some e \<and> is_Exception e \<and> \<not> is_JSONDecodeError e \<longrightarrow>
        fst (try_body h env st (Json (JObj kvs))) = Some e
      \<and> fst (on_message_try h env st (Json (JObj kvs))) = None
      \<and> fst (on_message h env st (Json (JObj kvs))) = Some MessageProcessError
      \<and> (\<exists>pre. snd (snd (on_message h env st (Json (JObj kvs)))) =
            pre @ [InvokeHandler (JObj kvs), Log Exception ''Error processing message.'', Reject True])"
  proof (intro impI)
    assume a: "dict_get kvs ''event_id'' = eid \<and> truthy eid \<and> redis_key eid = Some key \<and> key \<notin> dom (db st)
        \<and> \<not> from_url_fails env \<and> \<not> exists_fails env
        \<and> h (JObj kvs) = Some e \<and> is_Exception e \<and> \<not> is_JSONDecodeError e"
    have run: "try_body h env st (Json (JObj kvs)) =
           (Some e, False, st\<lparr> redis := True \<rparr>,
            Parse # DedupeCheck eid # snd (snd (is_processed env st eid)) @ [InvokeHandler (JObj kvs)])"
      using handler_raises_run[where h = h and kvs = kvs and eid = eid and key = key and st = st
          and env = env and e = e] a by simp
    have g1: "on_message_try h env st (Json (JObj kvs)) =
           (None, True, st\<lparr> redis := True \<rparr>,
            (Parse # DedupeCheck eid # snd (snd (is_processed env st eid)) @ [InvokeHandler (JObj kvs)])
              @ [Log Exception ''Error processing message.'', Reject True])"
      using general_clause(1)[OF run] a by simp
    have g2: "on_message h env st (Json (JObj kvs)) =
           (Some MessageProcessError, st\<lparr> redis := True \<rparr>,
            (Parse # DedupeCheck eid # snd (snd (is_processed env st eid)))
              @ [InvokeHandler (JObj kvs), Log Exception ''Error processing message.'', Reject True])"
      using general_clause(2)[OF run] a by simp
    show "fst (try_body h env st (Json (JObj kvs))) = Some e
      \<and> fst (on_message_try h env st (Json (JObj kvs))) = None
      \<and> fst (on_message h env st (Json (JObj kvs))) = Some MessageProcessError
      \<and> (\<exists>pre. snd (snd (on_message h env st (Json (JObj kvs)))) =
            pre @ [InvokeHandler (JObj kvs), Log Exception ''Error processing message.'', Reject True])"
      using run g1 g2 by simp
  qed
  have c12: "put_nowait q = Inl QueueFull \<longrightarrow> fill_tokens_step q = (None, q, 0)"
    by (simp add: fill_tokens_step_def)
  have c13: "stop (Some CancelledError) limiter = (None, limiter\<lparr> active := False \<rparr>, 0)"
    by (simp add: stop_def)
  show ?thesis
    using c1 c2 c3 c4 c5 c6 c7 c8 c9 c10 c11 c12 c13 by (intro conjI)
qed

text \<open>
  One run for each place: a response 404, a Redis that fails at each of its four commands, a
  broker that refuses the connection, the publication and the consumption, a body that is
  not JSON, a body that is not UTF-8, a handler that raises, a full queue and a cancelled
  refill task.
\<close>

theorem caught_exceptions_witness:
  "fst (raw_request (aenter (client_init None 5 3 1)) (Response 404 (Inr JNull)))
     = Inl (ClientResponseError 404)
   \<and> last (snd (raw_request (aenter (client_init None 5 3 1)) (Response 404 (Inr JNull))))
     = LogHttpError 404
   \<and> initialize (no_faults\<lparr> from_url_fails := True \<rparr>) fresh_store =
       (Some RedisError, fresh_store, [Log Exception ''Failed to initialize Redis connection pool.''])
   \<and> is_processed (no_faults\<lparr> exists_fails := True \<rparr>) (fresh_store\<lparr> redis := True \<rparr>) (JStr ''e1'') =
       (Inl RedisError, fresh_store\<lparr> redis := True \<rparr>,
        [Log Exception ''Error checking if event is processed.''])
   \<and> mark_as_processed (no_faults\<lparr> set_fails := True \<rparr>) (fresh_store\<lparr> redis := True \<rparr>) (JStr ''e1'') =
       (Some RedisError, fresh_store\<lparr> redis := True \<rparr>,
        [Log Exception ''Error marking event as processed.''])
   \<and> close_store True (fresh_store\<lparr> redis := True \<rparr>) =
       (Some RedisError, fresh_store\<lparr> redis := True \<rparr>, [Log Exception ''Error closing Redis connection.''])
   \<and> connect (broker_ok\<lparr> connect_robust_result := Some AMQPError \<rparr>)
         (RabbitMQEventBusAdapter ''events_exchange'') =
       (Some AMQPError, RabbitMQEventBusAdapter ''events_exchange'',
        [ConnectRobust, Log Exception ''Failed to connect to RabbitMQ.''])
   \<and> fst (publish broker_ok (Some AMQPError) (RabbitMQEventBusAdapter ''events_exchange'')
            ''Notification'' (JObj sample_event)) = Some AMQPError
   \<and> last (snd (snd (publish broker_ok (Some AMQPError) (RabbitMQEventBusAdapter ''events_exchange'')
            ''Notification'' (JObj sample_event)))) = Log Exception ''Failed to publish event.''
   \<and> fst (subscribe (broker_ok\<lparr> consume_result := Some AMQPError \<rparr>)
            (RabbitMQEventBusAdapter ''events_exchange'') ''Notification'' handler_ok) = Some AMQPError
   \<and> last (snd (snd (subscribe (broker_ok\<lparr> consume_result := Some AMQPError \<rparr>)
            (RabbitMQEventBusAdapter ''events_exchange'') ''Notification'' handler_ok)))
       = Log Exception ''Failed to subscribe to event.''
   \<and> on_message_try handler_ok no_faults fresh_store InvalidJson =
       (Some JSONDecodeError, True, fresh_store,
        [Parse, Log Exception ''Invalid JSON in message.'', Reject False])
   \<and> on_message_try handler_ok no_faults fresh_store InvalidUtf8 =
       (None, True, fresh_store, [Parse, Log Exception ''Error processing message.'', Reject True])
   \<and> on_message handler_ok no_faults fresh_store InvalidUtf8 =
       (Some MessageProcessError, fresh_store,
        [Parse, Log Exception ''Error processing message.'', Reject True])
   \<and> fst (on_message_try (handler_raising (OtherException ''boom'')) no_faults fresh_store
            (Json (JObj sample_event))) = None
   \<and> fst (on_message (handler_raising (OtherException ''boom'')) no_faults fresh_store
            (Json (JObj sample_event))) = Some MessageProcessError
   \<and> (\<exists>pre. snd (snd (on_message (handler_raising (OtherException ''boom'')) no_faults fresh_store
            (Json (JObj sample_event)))) =
         pre @ [InvokeHandler (JObj sample_event), Log Exception ''Error processing message.'', Reject True])
   \<and> fill_tokens_step \<lparr> maxsize = 1, qsize = 1 \<rparr> = (None, \<lparr> maxsize = 1, qsize = 1 \<rparr>, 0)
   \<and> stop (Some CancelledError) (RateLimiter 5 60) = (None, (RateLimiter 5 60)\<lparr> active := False \<rparr>, 0)"
proof -
  have conn: "fst (connect env (RabbitMQEventBusAdapter ''events_exchange'')) = None"
    if "connect_robust_result env = None" "channel_result env = None" "declare_exchange_result env = None"
    for env
    using that
    by (simp add: connect_def connect_connection_def connect_channel_def connect_exchange_def
        RabbitMQEventBusAdapter_def)
  show ?thesis
    using caught_exceptions[where out = "Response 404 (Inr JNull)" and ex = "ClientResponseError 404"
        and rl = None and t = 5 and mr = 3 and bs = 1
        and ?st1.0 = fresh_store and ?env1.0 = "no_faults\<lparr> from_url_fails := True \<rparr>"
        and ?st2.0 = "fresh_store\<lparr> redis := True \<rparr>" and ?id2.0 = "JStr ''e1''" and ?key2.0 = "''e1''"
        and ?env2.0 = "no_faults\<lparr> exists_fails := True \<rparr>"
        and ?st3.0 = "fresh_store\<lparr> redis := True \<rparr>" and ?id3.0 = "JStr ''e1''" and ?key3.0 = "''e1''"
        and ?env3.0 = "no_faults\<lparr> set_fails := True \<rparr>"
        and ?st4.0 = "fresh_store\<lparr> redis := True \<rparr>"
        and ?b5.0 = "RabbitMQEventBusAdapter ''events_exchange''"
        and ?env5.0 = "broker_ok\<lparr> connect_robust_result := Some AMQPError \<rparr>" and ?e5.0 = AMQPError
        and ?env6.0 = broker_ok and ?b6.0 = "RabbitMQEventBusAdapter ''events_exchange''"
        and ?e6.0 = AMQPError and ?name6.0 = "''Notification''" and ?data6.0 = "JObj sample_event"
        and ?env7.0 = "broker_ok\<lparr> consume_result := Some AMQPError \<rparr>"
        and ?b7.0 = "RabbitMQEventBusAdapter ''events_exchange''" and ?e7.0 = AMQPError
        and ?name7.0 = "''Notification''" and ?h7.0 = handler_ok
        and ?h8.0 = handler_ok and ?env8.0 = no_faults and ?st8.0 = fresh_store and ?p8.0 = InvalidJson
        and ?e8.0 = JSONDecodeError and ?pr8.0 = False and st8' = fresh_store and ?tr8.0 = "[Parse]"
        and ?h9.0 = handler_ok and ?env9.0 = no_faults and ?st9.0 = fresh_store and ?p9.0 = InvalidUtf8
        and ?e9.0 = UnicodeDecodeError and ?pr9.0 = False and st9' = fresh_store and ?tr9.0 = "[Parse]"
        and kvs = sample_event and eid = "JStr ''e1''" and key = "''e1''" and st = fresh_store
        and env = no_faults and h = "handler_raising (OtherException ''boom'')"
        and e = "OtherException ''boom''"
        and q = "\<lparr> maxsize = 1, qsize = 1 \<rparr>" and limiter = "RateLimiter 5 60"]
      conn[of broker_ok] conn[of "broker_ok\<lparr> consume_result := Some AMQPError \<rparr>"]
    by (simp add: fresh_store_def no_faults_def broker_ok_def RabbitMQEventBusAdapter_def
        try_body_def dict_get_def sample_event_def handler_raising_def put_nowait_def)
qed

text \<open>
  C8 as stated fails for a handler that raises: the \<^verbatim>\<open>try\<close> statement absorbs the exception,
  and \<^verbatim>\<open>on_message\<close> does not raise it.
\<close>

theorem handler_error_counterexample:
  "handler_raising (OtherException ''boom'') (JObj sample_event) = Some (OtherException ''boom'')
   \<and> fst (on_message_try (handler_raising (OtherException ''boom'')) no_faults fresh_store
            (Json (JObj sample_event))) = None
   \<and> fst (on_message (handler_raising (OtherException ''boom'')) no_faults fresh_store
            (Json (JObj sample_event))) \<noteq> Some (OtherException ''boom'')"
  by (simp add: on_message_def on_message_try_def try_body_def process_event_def is_processed_def
      initialize_def ack_def reject_def dict_get_def sample_event_def no_faults_def fresh_store_def
      handler_raising_def Let_def)

section \<open>Properties of the constructors and of subscribe\<close>

text \<open>
  C9. Constructing an \<^verbatim>\<open>EODHDAPIClient\<close> with a missing (\<^verbatim>\<open>None\<close>) or empty key raises
  \<^verbatim>\<open>ValueError\<close>; with any non-empty key the constructor succeeds, stores the key unchanged
  and leaves the parent's fields as the parent's constructor set them.
\<close>

theorem eodhd_init_api_key:
  "(k = None \<or> k = Some [] \<longrightarrow> eodhd_init k rl t mr bs = Inl ValueError)
   \<and> (s \<noteq> [] \<longrightarrow>
        (\<exists>c. eodhd_init (Some s) rl t mr bs = Inr c \<and> api_key c = s
            \<and> api_client.truncate c = client_init rl t mr bs))"
  by (auto simp: eodhd_init_def Let_def api_client.extend_def eodhd_client.fields_def
      api_client.truncate_def client_init_def)

theorem eodhd_init_api_key_witness:
  "eodhd_init None None 10 3 1 = Inl ValueError
   \<and> eodhd_init (Some []) None 10 3 1 = Inl ValueError
   \<and> (\<exists>c. eodhd_init (Some ''demo'') None 10 3 1 = Inr c \<and> api_key c = ''demo'')"
  using eodhd_init_api_key[where k = None and s = "''demo''" and rl = None and t = 10 and mr = 3 and bs = 1]
    eodhd_init_api_key[where k = "Some []" and s = "''demo''" and rl = None and t = 10 and mr = 3 and bs = 1]
  by auto

lemma connect_subscriptions:
  "subscriptions (fst (snd (connect env b))) = subscriptions b"
  by (auto simp: connect_def connect_connection_def connect_channel_def connect_exchange_def
      split: option.splits)

text \<open>
  C10. \<^verbatim>\<open>subscribe\<close> appends the pair of event name and handler exactly when it returns
  without an exception, which is only after the broker's consume operation has succeeded;
  in every other case the subscriptions are unchanged. In particular, when consuming
  raises, that exception is raised again (logged first when it is an \<^verbatim>\<open>AMQPError\<close>) and the
  subscriptions are unchanged.
\<close>

theorem subscribe_records_after_consume:
  "subscriptions (fst (snd (subscribe env b name h))) =
     (if fst (subscribe env b name h) = None then subscriptions b @ [(name, h)] else subscriptions b)
   \<and> (fst (subscribe env b name h) = None \<longrightarrow>
        consume_result env = None \<and> last (snd (snd (subscribe env b name h))) = Consume)
   \<and> (fst (connect env b) = None \<and> declare_queue_result env = None \<and> bind_result env = None
        \<and> consume_result env = Some e \<longrightarrow>
        fst (subscribe env b name h) = Some e
        \<and> subscriptions (fst (snd (subscribe env b name h))) = subscriptions b
        \<and> (is_AMQPError e \<longrightarrow>
             last (snd (snd (subscribe env b name h))) = Log Exception ''Failed to subscribe to event.''))"
proof -
  obtain r b1 tr1 where c: "connect env b = (r, b1, tr1)" by (cases "connect env b") auto
  have s: "subscriptions b1 = subscriptions b" using connect_subscriptions[of env b] c by simp
  show ?thesis using c s
    by (auto simp: subscribe_def Let_def split: option.splits)
qed

theorem subscribe_records_after_consume_witness:
  "fst (subscribe (broker_ok\<lparr> consume_result := Some AMQPError \<rparr>)
         (RabbitMQEventBusAdapter ''events_exchange'') ''Notification'' handler_ok) = Some AMQPError
   \<and> subscriptions (fst (snd (subscribe (broker_ok\<lparr> consume_result := Some AMQPError \<rparr>)
         (RabbitMQEventBusAdapter ''events_exchange'') ''Notification'' handler_ok))) = []
   \<and> subscriptions (fst (snd (subscribe broker_ok
         (RabbitMQEventBusAdapter ''events_exchange'') ''Notification'' handler_ok)))
       = [(''Notification'', handler_ok)]"
proof -
  have c: "fst (connect env (RabbitMQEventBusAdapter ''events_exchange'')) = None"
    if "connect_robust_result env = None" "channel_result env = None" "declare_exchange_result env = None"
    for env
    using that
    by (simp add: connect_def connect_connection_def connect_channel_def connect_exchange_def
        RabbitMQEventBusAdapter_def)
  have ok: "fst (subscribe broker_ok (RabbitMQEventBusAdapter ''events_exchange'') ''Notification'' handler_ok) = None"
    using c[of broker_ok]
    by (auto simp: subscribe_def broker_ok_def Let_def split: prod.splits option.splits)
  show ?thesis
    using subscribe_records_after_consume[where env = "broker_ok\<lparr> consume_result := Some AMQPError \<rparr>"
        and b = "RabbitMQEventBusAdapter ''events_exchange''" and name = "''Notification''"
        and h = handler_ok and e = AMQPError]
      subscribe_records_after_consume[where env = broker_ok
        and b = "RabbitMQEventBusAdapter ''events_exchange''" and name = "''Notification''"
        and h = handler_ok and e = AMQPError]
      c[of "broker_ok\<lparr> consume_result := Some AMQPError \<rparr>"] ok
    by (simp add: broker_ok_def RabbitMQEventBusAdapter_def)
qed

end
